theory Spec2Isabelle
  imports Main
begin

section \<open>Universal function dispatching and promotion (umath/dispatching.c)\<close>

subsection \<open>Pointers, errors and the DType hierarchy\<close>

text \<open>
  The C code compares object pointers by identity. A pointer is \<open>NULL\<close>, the \<open>Py_None\<close>
  singleton, or a DType class, which is identified by a number. Reference counts are
  left out: they do not decide which loop is chosen.
\<close>

datatype pyptr = Null | PyNone | DT nat

text \<open>
  What C leaves undefined is an outcome of its own: a \<open>NULL\<close> pointer handed to a
  function that dereferences it, a read of a stack slot that was never written, a tuple
  read past its length.
\<close>

datatype fault = NullDeref | UninitRead | OutOfBounds

text \<open>The Python exceptions that this file sets or lets through.\<close>

datatype pyexc =
    NotImplementedAbstract
  | AmbiguousPromoters "pyptr list" "pyptr list" "pyptr list"
  | SubclassError
  | RecursionError
  | NotImplementedPyPromoter
  | NewDTypeInSignature
  | TypeResolverError
  | PromotionError
  | NoLoopFound "pyptr list"

text \<open>
  The DType hierarchy and the type promotion of \<open>common_dtype.h\<close> are outside this file;
  they are parameters. \<open>issubclass g r\<close> is \<open>None\<close> when \<open>PyObject_IsSubclass\<close> fails.
\<close>

datatype promote_ret = Common nat | NoCommonDType | PromoteFailed

record hierarchy =
  dt_abstract :: "nat \<Rightarrow> bool"
  dt_legacy :: "nat \<Rightarrow> bool"
  dt_is_bool :: "nat \<Rightarrow> bool"
  issubclass :: "nat \<Rightarrow> nat \<Rightarrow> bool option"
  PromoteDTypeSequence :: "pyptr list \<Rightarrow> promote_ret"
  object_DType :: nat

text \<open>
  \<open>NPY_DT_is_abstract\<close> reads the flags of a DType class. The callers below apply it only
  to tuple items that are not \<open>Py_None\<close>, and \<open>PyUFunc_AddLoop\<close> admits only \<open>None\<close> and DType
  classes as tuple items.
\<close>

definition NPY_DT_is_abstract :: "hierarchy \<Rightarrow> pyptr \<Rightarrow> bool" where
  "NPY_DT_is_abstract H p = (case p of DT d \<Rightarrow> dt_abstract H d | _ \<Rightarrow> False)"

text \<open>
  \<open>PyObject_IsSubclass(derived, cls)\<close>: \<open>Inr None\<close> is the return value -1 (an exception
  is set), \<open>Inr (Some b)\<close> the answer. The function dereferences both arguments; \<open>Py_None\<close>
  is not a class, so it raises.
\<close>

definition PyObject_IsSubclass :: "hierarchy \<Rightarrow> pyptr \<Rightarrow> pyptr \<Rightarrow> fault + bool option" where
  "PyObject_IsSubclass H derived cls =
     (case derived of
        Null \<Rightarrow> Inl NullDeref
      | PyNone \<Rightarrow> Inr None
      | DT g \<Rightarrow> (case cls of
                   Null \<Rightarrow> Inl NullDeref
                 | PyNone \<Rightarrow> Inr None
                 | DT r \<Rightarrow> Inr (issubclass H g r)))"

subsection \<open>The ufunc: loops, promoters and the dispatch cache\<close>

text \<open>
  The part of \<open>PyUFuncObject\<close> a promoter may look at: the operand counts and whether the
  legacy type resolver is \<open>PyUFunc_SimpleBinaryComparisonTypeResolver\<close>.
\<close>

record ufunc_hdr =
  nin :: nat
  nargs :: nat
  cmp_resolver :: bool

text \<open>
  A promoter fills the caller's array \<open>new_op_dtypes\<close>, which the caller declares without an
  initialiser: a slot the promoter does not write stays \<open>Unwritten\<close>. A negative return
  value is \<open>Refuse\<close>, with the exception the promoter set, if any (the exception
  indicator is as it was when none was set), or \<open>RefuseCleared\<close> when the promoter has called
  \<open>PyErr_Clear\<close>, which leaves no exception set, whatever was pending.
\<close>

datatype slot = Unwritten | Written pyptr

datatype promoter_ret = Refuse "pyexc option" | RefuseCleared | Promoted "slot list"

type_synonym promoter_function = "ufunc_hdr \<Rightarrow> pyptr list \<Rightarrow> pyptr list \<Rightarrow> promoter_ret"

text \<open>
  The second item of an entry of \<open>ufunc->_loops\<close>: an ArrayMethod, a capsule named
  \<open>numpy._ufunc_promoter\<close> holding a promoter function, or another Python object.
\<close>

datatype target = ArrayMethod nat | PromoterCapsule promoter_function | PyCallable nat

type_synonym info = "pyptr list \<times> target"

fun is_ArrayMethod :: "target \<Rightarrow> bool" where
  "is_ArrayMethod (ArrayMethod m) = True"
| "is_ArrayMethod _ = False"

subsection \<open>resolve_implementation_info\<close>

text \<open>
  The loop over the operands that tests whether one entry matches (lines 225-274);
  \<open>op_dtypes ! i\<close> is \<open>given_dtype\<close> and \<open>curr_dtypes ! i\<close> is \<open>resolver_dtype\<close>. The
  reduce test reads item 2 of the tuple whatever its length is.
\<close>

datatype match_ret = Matched bool | MatchRaised pyexc | MatchFault fault

fun match_slots :: "hierarchy \<Rightarrow> nat \<Rightarrow> pyptr list \<Rightarrow> pyptr list \<Rightarrow> nat list \<Rightarrow> match_ret" where
  "match_slots H n_in op_dtypes curr_dtypes [] = Matched True"
| "match_slots H n_in op_dtypes curr_dtypes (i # rest) =
     (if op_dtypes ! i = Null \<and> i \<ge> n_in then match_slots H n_in op_dtypes curr_dtypes rest
      else if op_dtypes ! i = Null \<and> \<not> 2 < length curr_dtypes then MatchFault OutOfBounds
      else if op_dtypes ! i = Null \<and> curr_dtypes ! 0 = curr_dtypes ! 2
        then match_slots H n_in op_dtypes curr_dtypes rest
      else if curr_dtypes ! i = PyNone then match_slots H n_in op_dtypes curr_dtypes rest
      else if op_dtypes ! i = curr_dtypes ! i then match_slots H n_in op_dtypes curr_dtypes rest
      else if \<not> NPY_DT_is_abstract H (curr_dtypes ! i) then Matched False
      else (case PyObject_IsSubclass H (op_dtypes ! i) (curr_dtypes ! i) of
              Inl f \<Rightarrow> MatchFault f
            | Inr None \<Rightarrow> MatchRaised SubclassError
            | Inr (Some subclass) \<Rightarrow>
                if \<not> subclass then Matched False
                else match_slots H n_in op_dtypes curr_dtypes rest))"

text \<open>
  The comparison of a new match with the best one so far (lines 290-380). \<open>slot_best\<close> is
  the value of the variable \<open>best\<close> for one slot (-1, 0 or 1), or the exception.
\<close>

datatype vote = Skip | Best int | Raise pyexc

definition slot_best :: "hierarchy \<Rightarrow> pyptr \<Rightarrow> pyptr \<Rightarrow> pyptr \<Rightarrow> vote" where
  "slot_best H op_dtype prev_dtype new_dtype =
     (if prev_dtype = new_dtype then Skip
      else if op_dtype = Null then Skip
      else if prev_dtype = PyNone then Best 1
      else if new_dtype = PyNone then Best 0
      else if \<not> NPY_DT_is_abstract H prev_dtype \<and> \<not> NPY_DT_is_abstract H new_dtype then
        (if prev_dtype = op_dtype then Best 0
         else if new_dtype = op_dtype then Best 1
         else Best (- 1))
      else if \<not> NPY_DT_is_abstract H prev_dtype then Best 0
      else if \<not> NPY_DT_is_abstract H new_dtype then Best 1
      else Raise NotImplementedAbstract)"

datatype cmp_ret = CurrentBest int | CmpRaised pyexc

fun compare_slots ::
  "hierarchy \<Rightarrow> nat \<Rightarrow> pyptr list \<Rightarrow> pyptr list \<Rightarrow> pyptr list \<Rightarrow> nat list \<Rightarrow> int \<Rightarrow> cmp_ret" where
  "compare_slots H n_in op_dtypes best_dtypes curr_dtypes [] current_best =
     CurrentBest current_best"
| "compare_slots H n_in op_dtypes best_dtypes curr_dtypes (i # rest) current_best =
     (if i = n_in \<and> current_best \<noteq> - 1 then CurrentBest current_best
      else (case slot_best H (op_dtypes ! i) (best_dtypes ! i) (curr_dtypes ! i) of
              Skip \<Rightarrow> compare_slots H n_in op_dtypes best_dtypes curr_dtypes rest current_best
            | Raise e \<Rightarrow> CmpRaised e
            | Best best \<Rightarrow>
                if best = - 1
                  then compare_slots H n_in op_dtypes best_dtypes curr_dtypes rest current_best
                else if current_best \<noteq> - 1 \<and> current_best \<noteq> best then CurrentBest (- 1)
                else compare_slots H n_in op_dtypes best_dtypes curr_dtypes rest best))"

text \<open>
  The loop over \<open>ufunc->_loops\<close> (lines 202-424). \<open>ScanTie\<close> is the exit at
  \<open>current_best == -1\<close>, with the two entries that tied.
\<close>

datatype scan_ret = ScanRaised pyexc | ScanFault fault | ScanTie info info | ScanDone "info option"

fun scan_loops ::
  "hierarchy \<Rightarrow> ufunc_hdr \<Rightarrow> pyptr list \<Rightarrow> bool \<Rightarrow> info list \<Rightarrow> info option \<Rightarrow> scan_ret" where
  "scan_loops H U op_dtypes only_promoters [] best = ScanDone best"
| "scan_loops H U op_dtypes only_promoters (resolver_info # rest) best =
     (if only_promoters \<and> is_ArrayMethod (snd resolver_info)
        then scan_loops H U op_dtypes only_promoters rest best
      else (case match_slots H (nin U) op_dtypes (fst resolver_info) [0..<nargs U] of
              MatchFault f \<Rightarrow> ScanFault f
            | MatchRaised e \<Rightarrow> ScanRaised e
            | Matched False \<Rightarrow> scan_loops H U op_dtypes only_promoters rest best
            | Matched True \<Rightarrow>
                (case best of
                   None \<Rightarrow> scan_loops H U op_dtypes only_promoters rest (Some resolver_info)
                 | Some b \<Rightarrow>
                     (case compare_slots H (nin U) op_dtypes (fst b) (fst resolver_info)
                             [0..<nargs U] (- 1) of
                        CmpRaised e \<Rightarrow> ScanRaised e
                      | CurrentBest current_best \<Rightarrow>
                          if current_best = - 1 then ScanTie b resolver_info
                          else if current_best = 0
                            then scan_loops H U op_dtypes only_promoters rest best
                          else scan_loops H U op_dtypes only_promoters rest
                                 (Some resolver_info)))))"

text \<open>
  \<open>resolve_implementation_info\<close> returns -1 with an exception set (\<open>Return_m1\<close>) or 0 with
  \<open>*out_info\<close>. On a tie in the retry it sets an exception and still returns 0:
  the second component of \<open>Return_0\<close> is that exception. Building the tuple \<open>given\<close> is
  taken to succeed.
\<close>

datatype resolve_ret = Return_m1 pyexc | Return_0 "info option" "pyexc option" | ResolveFault fault

function resolve_implementation_info ::
  "hierarchy \<Rightarrow> ufunc_hdr \<Rightarrow> info list \<Rightarrow> pyptr list \<Rightarrow> bool \<Rightarrow> resolve_ret" where
  "resolve_implementation_info H U loops op_dtypes only_promoters =
     (case scan_loops H U op_dtypes only_promoters loops None of
        ScanRaised e \<Rightarrow> Return_m1 e
      | ScanFault f \<Rightarrow> ResolveFault f
      | ScanDone best \<Rightarrow> Return_0 best None
      | ScanTie b c \<Rightarrow>
          if \<not> only_promoters then resolve_implementation_info H U loops op_dtypes True
          else Return_0 None
                 (Some (AmbiguousPromoters (take (nargs U) op_dtypes) (fst b) (fst c))))"
  by pat_completeness auto
termination
  by (relation "measure (\<lambda>(H, U, loops, op_dtypes, only_promoters). if only_promoters then 0 else 1)")
     auto

declare resolve_implementation_info.simps [simp del]

subsection \<open>The state of one call\<close>

text \<open>
  The legacy type resolver of the ufunc (\<open>ufunc->type_resolver\<close>) is outside this file. It
  receives the type tuple built from the signature (\<open>None\<close> for \<open>NULL\<close>, when the whole
  signature is unset) and returns the DType classes of \<open>out_descrs\<close>, or fails.
\<close>

type_synonym legacy_resolver = "pyptr list option \<Rightarrow> nat list option"

record ufunc =
  hdr :: ufunc_hdr
  loops :: "info list"
  type_resolver :: "legacy_resolver option"
  ntypes :: nat
  userloops_null :: bool

text \<open>
  What the functions below change: the dispatch cache of the ufunc, the exception
  indicator of the interpreter (\<open>PyErr_Occurred\<close>), and the caller's \<open>signature\<close> array. The
  field \<open>legacy_calls\<close> counts the calls of \<open>ufunc->type_resolver\<close> made so far; no code
  reads it.
\<close>

record dstate =
  cache :: "pyptr list \<rightharpoonup> info"
  err :: "pyexc option"
  signature :: "pyptr list"
  legacy_calls :: nat

definition cache_key :: "ufunc \<Rightarrow> pyptr list \<Rightarrow> pyptr list" where
  "cache_key U op_dtypes = take (nargs (hdr U)) op_dtypes"

text \<open>
  Modelled from the spec: the identity hash table of \<open>npy_hashtable.h\<close>, which is not in
  this file. The spec describes the cache as a map keyed by the identity tuple of the
  operand types, with overwrite semantics (the last writer wins). Storing \<open>NULL\<close> leaves
  the key without an entry. The writes are taken to succeed.
\<close>

definition PyArrayIdentityHash_GetItem :: "dstate \<Rightarrow> pyptr list \<Rightarrow> info option" where
  "PyArrayIdentityHash_GetItem st key = cache st key"

definition PyArrayIdentityHash_SetItem :: "dstate \<Rightarrow> pyptr list \<Rightarrow> info option \<Rightarrow> dstate" where
  "PyArrayIdentityHash_SetItem st key value = st\<lparr>cache := (cache st)(key := value)\<rparr>"

definition set_err :: "pyexc \<Rightarrow> dstate \<Rightarrow> dstate" where
  "set_err e st = st\<lparr>err := Some e\<rparr>"

definition clear_err :: "dstate \<Rightarrow> dstate" where
  "clear_err st = st\<lparr>err := None\<rparr>"

subsection \<open>The legacy type resolver\<close>

definition NPY_DT_is_legacy :: "hierarchy \<Rightarrow> pyptr \<Rightarrow> bool" where
  "NPY_DT_is_legacy H p = (case p of DT d \<Rightarrow> dt_legacy H d | _ \<Rightarrow> False)"

text \<open>
  \<open>_make_new_typetup\<close>: \<open>None\<close> is the return value -1 (a RuntimeError is set);
  \<open>Some None\<close> is the \<open>NULL\<close> type tuple of a signature that is unset everywhere. The
  singleton descriptor of a DType stands for the DType.
\<close>

definition make_new_typetup :: "hierarchy \<Rightarrow> nat \<Rightarrow> pyptr list \<Rightarrow> pyptr list option option" where
  "make_new_typetup H nop sig =
     (if \<exists>i \<in> set [0..<nop]. sig ! i \<noteq> Null \<and>
            (\<not> NPY_DT_is_legacy H (sig ! i) \<or> NPY_DT_is_abstract H (sig ! i)) then None
      else if \<forall>i \<in> set [0..<nop]. sig ! i = Null then Some None
      else Some (Some (map (\<lambda>i. if sig ! i = Null then PyNone else sig ! i) [0..<nop])))"

text \<open>
  The functions from here on return an outcome and the state they leave: the outcome is
  \<open>Inl\<close> of a fault, or \<open>Inr\<close> of what the C function returns.

  \<open>legacy_promote_using_legacy_type_resolver\<close>. The result is the return value (\<open>None\<close> for
  -1), the array \<open>operation_DTypes\<close> and \<open>*out_cacheable\<close>, with the new state. A
  signature slot that differs from the resolver's answer is overwritten and the result is
  marked as not cacheable. The array \<open>out_descrs\<close> starts as all \<open>NULL\<close>, and
  \<open>NPY_DTYPE\<close> dereferences each of its first \<open>nargs\<close> slots.
\<close>

definition legacy_signature :: "nat \<Rightarrow> pyptr list \<Rightarrow> pyptr list \<Rightarrow> pyptr list" where
  "legacy_signature n sig operation_DTypes =
     map (\<lambda>i. if sig ! i \<noteq> Null \<and> sig ! i \<noteq> operation_DTypes ! i
               then operation_DTypes ! i else sig ! i) [0..<n] @ drop n sig"

definition legacy_cacheable :: "nat \<Rightarrow> pyptr list \<Rightarrow> pyptr list \<Rightarrow> bool \<Rightarrow> bool" where
  "legacy_cacheable n sig operation_DTypes cacheable =
     (if \<exists>i \<in> set [0..<n]. sig ! i \<noteq> Null \<and> sig ! i \<noteq> operation_DTypes ! i
      then False else cacheable)"

definition legacy_promote_using_legacy_type_resolver ::
  "hierarchy \<Rightarrow> ufunc \<Rightarrow> pyptr list \<Rightarrow> bool \<Rightarrow> dstate
     \<Rightarrow> (fault + (pyptr list \<times> bool) option) \<times> dstate" where
  "legacy_promote_using_legacy_type_resolver H U operation_DTypes cacheable st =
     (case make_new_typetup H (nargs (hdr U)) (signature st) of
        None \<Rightarrow> (Inr None, set_err NewDTypeInSignature st)
      | Some type_tuple \<Rightarrow>
          (case type_resolver U of
             None \<Rightarrow> (Inl NullDeref, st)
           | Some resolver \<Rightarrow>
               (case resolver type_tuple of
                  None \<Rightarrow> (Inr None, set_err TypeResolverError
                                      (st\<lparr>legacy_calls := Suc (legacy_calls st)\<rparr>))
                | Some out_descrs \<Rightarrow>
                    if length out_descrs < nargs (hdr U)
                      then (Inl NullDeref, st\<lparr>legacy_calls := Suc (legacy_calls st)\<rparr>)
                    else
                      (let new_DTypes = map DT (take (nargs (hdr U)) out_descrs)
                                          @ drop (nargs (hdr U)) operation_DTypes
                       in (Inr (Some (new_DTypes,
                                      legacy_cacheable (nargs (hdr U)) (signature st)
                                        new_DTypes cacheable)),
                           st\<lparr>signature := legacy_signature (nargs (hdr U))
                                              (signature st) new_DTypes,
                               legacy_calls := Suc (legacy_calls st)\<rparr>)))))"

subsection \<open>call_promoter_and_recurse and promote_and_get_info_and_ufuncimpl\<close>

text \<open>
  The first \<open>n\<close> slots of \<open>new_op_dtypes\<close> as the caller reads them: the read of a slot that
  was never written is undefined.
\<close>

fun read_slots :: "slot list \<Rightarrow> pyptr list option" where
  "read_slots [] = Some []"
| "read_slots (Unwritten # rest) = None"
| "read_slots (Written p # rest) = map_option ((#) p) (read_slots rest)"

definition read_new_op_dtypes :: "nat \<Rightarrow> slot list \<Rightarrow> pyptr list option" where
  "read_new_op_dtypes n new = (if length new < n then None else read_slots (take n new))"

text \<open>
  The cache probe and the matcher of \<open>promote_and_get_info_and_ufuncimpl\<close> (lines 676-705),
  up to the point where a promoter has to be called or nothing was found.
\<close>

datatype lookup_ret =
    LookupFault fault
  | LookupReturn "info option" dstate
  | LookupPromoter info dstate
  | LookupNothing dstate

definition lookup_or_resolve :: "hierarchy \<Rightarrow> ufunc \<Rightarrow> pyptr list \<Rightarrow> dstate \<Rightarrow> lookup_ret" where
  "lookup_or_resolve H U op_dtypes st =
     (case PyArrayIdentityHash_GetItem st (cache_key U op_dtypes) of
        Some info \<Rightarrow>
          if is_ArrayMethod (snd info) then LookupReturn (Some info) st
          else LookupPromoter info st
      | None \<Rightarrow>
          (case resolve_implementation_info H (hdr U) (loops U) op_dtypes False of
             ResolveFault f \<Rightarrow> LookupFault f
           | Return_m1 e \<Rightarrow> LookupReturn None (set_err e st)
           | Return_0 None None \<Rightarrow> LookupNothing st
           | Return_0 None (Some e) \<Rightarrow> LookupNothing (set_err e st)
           | Return_0 (Some info) raised \<Rightarrow>
               if is_ArrayMethod (snd info)
                 then LookupReturn (Some info)
                        (PyArrayIdentityHash_SetItem st (cache_key U op_dtypes) (Some info))
               else LookupPromoter info st))"

text \<open>
  \<open>depth\<close> is the number of recursive calls that \<open>Py_EnterRecursiveCall\<close> still admits.
  After a promoter has returned 0, every path reads all \<open>nargs\<close> slots of
  \<open>new_op_dtypes\<close>: the comparison loop up to the first change, the hash of the cache probe
  in the recursive call, and the loop at \<open>finish\<close>.

  \<open>legacy_fallback\<close> is the last part of \<open>promote_and_get_info_and_ufuncimpl\<close> (lines
  735-758), which two paths of that function reach: no loop was found, or the promoter
  gave nothing and no exception is set.
\<close>

function call_promoter_and_recurse ::
    "hierarchy \<Rightarrow> ufunc \<Rightarrow> nat \<Rightarrow> target \<Rightarrow> pyptr list \<Rightarrow> dstate
       \<Rightarrow> (fault + info option) \<times> dstate"
  and promote_and_get_info_and_ufuncimpl ::
    "hierarchy \<Rightarrow> ufunc \<Rightarrow> nat \<Rightarrow> pyptr list \<Rightarrow> bool \<Rightarrow> dstate
       \<Rightarrow> (fault + info option) \<times> dstate"
  and legacy_fallback ::
    "hierarchy \<Rightarrow> ufunc \<Rightarrow> nat \<Rightarrow> pyptr list \<Rightarrow> bool \<Rightarrow> dstate
       \<Rightarrow> (fault + info option) \<times> dstate" where
  "call_promoter_and_recurse H U depth promoter op_dtypes st =
     (case promoter of
        PromoterCapsule promoter_function \<Rightarrow>
          (case promoter_function (hdr U) op_dtypes (signature st) of
             Refuse None \<Rightarrow> (Inr None, st)
           | Refuse (Some e) \<Rightarrow> (Inr None, set_err e st)
           | RefuseCleared \<Rightarrow> (Inr None, clear_err st)
           | Promoted new \<Rightarrow>
               (case read_new_op_dtypes (nargs (hdr U)) new of
                  None \<Rightarrow> (Inl UninitRead, st)
                | Some new_op_dtypes \<Rightarrow>
                    if new_op_dtypes = take (nargs (hdr U)) op_dtypes then (Inr None, st)
                    else (case depth of
                            0 \<Rightarrow> (Inr None, set_err RecursionError st)
                          | Suc d \<Rightarrow>
                              promote_and_get_info_and_ufuncimpl H U d new_op_dtypes False st)))
      | _ \<Rightarrow> (Inr None, set_err NotImplementedPyPromoter st))"
| "promote_and_get_info_and_ufuncimpl H U depth op_dtypes allow_legacy_promotion st =
     (case lookup_or_resolve H U op_dtypes st of
        LookupFault f \<Rightarrow> (Inl f, st)
      | LookupReturn info st1 \<Rightarrow> (Inr info, st1)
      | LookupNothing st1 \<Rightarrow> legacy_fallback H U depth op_dtypes allow_legacy_promotion st1
      | LookupPromoter promoter_info st1 \<Rightarrow>
          (case call_promoter_and_recurse H U depth (snd promoter_info) op_dtypes st1 of
             (Inl f, st2) \<Rightarrow> (Inl f, st2)
           | (Inr (Some info), st2) \<Rightarrow>
               (Inr (Some info),
                PyArrayIdentityHash_SetItem st2 (cache_key U op_dtypes) (Some info))
           | (Inr None, st2) \<Rightarrow>
               if err st2 \<noteq> None then (Inr None, st2)
               else legacy_fallback H U depth op_dtypes allow_legacy_promotion st2))"
| "legacy_fallback H U depth op_dtypes allow_legacy_promotion st =
     (if \<not> allow_legacy_promotion \<or> type_resolver U = None
         \<or> (ntypes U = 0 \<and> userloops_null U) then (Inr None, st)
      else (case legacy_promote_using_legacy_type_resolver H U
                   (replicate (nargs (hdr U)) Null) True st of
              (Inl f, st1) \<Rightarrow> (Inl f, st1)
            | (Inr None, st1) \<Rightarrow> (Inr None, st1)
            | (Inr (Some (new_op_dtypes, cacheable)), st1) \<Rightarrow>
                (case promote_and_get_info_and_ufuncimpl H U depth new_op_dtypes False st1 of
                   (Inl f, st2) \<Rightarrow> (Inl f, st2)
                 | (Inr info, st2) \<Rightarrow>
                     (Inr info,
                      if cacheable
                      then PyArrayIdentityHash_SetItem st2 (cache_key U op_dtypes) info
                      else st2))))"
  by pat_completeness auto
termination
  by (relation "measure (\<lambda>x. case x of
         Inl (H, U, depth, promoter, op_dtypes, st) \<Rightarrow> 4 * depth
       | Inr (Inl (H, U, depth, op_dtypes, allow, st)) \<Rightarrow>
           4 * depth + (if allow then 3 else 1)
       | Inr (Inr (H, U, depth, op_dtypes, allow, st)) \<Rightarrow>
           4 * depth + (if allow then 2 else 0))")
     auto

declare call_promoter_and_recurse.simps [simp del]
declare promote_and_get_info_and_ufuncimpl.simps [simp del]
declare legacy_fallback.simps [simp del]

subsection \<open>promote_and_get_ufuncimpl\<close>

text \<open>
  The entry point. It overlays the signature on the operand DTypes, clears the outputs
  that the signature does not fix, calls the legacy resolver first when
  \<open>force_legacy_promotion\<close> is set, and runs the function above. The result is the method
  (\<open>None\<close> for \<open>NULL\<close>), the caller's array \<open>op_dtypes\<close> and the state, whose \<open>signature\<close> is
  filled in on success. The reduce test reads item 2 of the tuple of the entry found.
\<close>

definition overlay_signature :: "nat \<Rightarrow> nat \<Rightarrow> pyptr list \<Rightarrow> pyptr list \<Rightarrow> pyptr list" where
  "overlay_signature n_in n sig op_dtypes =
     map (\<lambda>i. if sig ! i \<noteq> Null then sig ! i
               else if i \<ge> n_in then Null else op_dtypes ! i) [0..<n] @ drop n op_dtypes"

definition fill_signature :: "nat \<Rightarrow> pyptr list \<Rightarrow> pyptr list \<Rightarrow> pyptr list" where
  "fill_signature n all_dtypes sig =
     map (\<lambda>i. if sig ! i = Null then all_dtypes ! i else sig ! i) [0..<n] @ drop n sig"

text \<open>
  Lines 812-844: the operand DTypes the resolution starts from. With
  \<open>force_legacy_promotion\<close> the legacy resolver is called at once and overwrites them.
\<close>

definition initial_op_dtypes ::
  "hierarchy \<Rightarrow> ufunc \<Rightarrow> pyptr list \<Rightarrow> bool \<Rightarrow> dstate
     \<Rightarrow> (fault + (pyptr list \<times> bool) option) \<times> dstate" where
  "initial_op_dtypes H U op_dtypes force_legacy_promotion st =
     (if force_legacy_promotion
      then legacy_promote_using_legacy_type_resolver H U
             (overlay_signature (nin (hdr U)) (nargs (hdr U)) (signature st) op_dtypes) True st
      else (Inr (Some (overlay_signature (nin (hdr U)) (nargs (hdr U)) (signature st) op_dtypes,
                       True)), st))"

function promote_and_get_ufuncimpl ::
  "hierarchy \<Rightarrow> ufunc \<Rightarrow> nat \<Rightarrow> pyptr list \<Rightarrow> bool \<Rightarrow> bool \<Rightarrow> bool \<Rightarrow> dstate
     \<Rightarrow> (fault + target option) \<times> pyptr list \<times> dstate" where
  "promote_and_get_ufuncimpl H U depth op_dtypes force_legacy_promotion
       allow_legacy_promotion ensure_reduce_compatible st =
     (case initial_op_dtypes H U op_dtypes force_legacy_promotion st of
        (Inl f, st1) \<Rightarrow>
          (Inl f, overlay_signature (nin (hdr U)) (nargs (hdr U)) (signature st) op_dtypes,
           st1)
      | (Inr None, st1) \<Rightarrow>
          (Inr None, overlay_signature (nin (hdr U)) (nargs (hdr U)) (signature st) op_dtypes,
           st1)
      | (Inr (Some (op_dtypes1, cacheable)), st1) \<Rightarrow>
          (case promote_and_get_info_and_ufuncimpl H U depth op_dtypes1
                  allow_legacy_promotion st1 of
             (Inl f, st2) \<Rightarrow> (Inl f, op_dtypes1, st2)
           | (Inr None, st2) \<Rightarrow>
               (Inr None, op_dtypes1,
                if err st2 = None
                then set_err (NoLoopFound (take (nargs (hdr U)) op_dtypes1)) st2
                else st2)
           | (Inr (Some info), st2) \<Rightarrow>
               if ensure_reduce_compatible \<and> signature st2 ! 0 = Null
                  \<and> \<not> 2 < length (fst info) then (Inl OutOfBounds, op_dtypes1, st2)
               else if ensure_reduce_compatible \<and> signature st2 ! 0 = Null
                       \<and> fst info ! 0 \<noteq> fst info ! 2
                 then promote_and_get_ufuncimpl H U depth op_dtypes1 force_legacy_promotion
                        allow_legacy_promotion False
                        (st2\<lparr>signature := (signature st2)[0 := fst info ! 2]\<rparr>)
               else (Inr (Some (snd info)), op_dtypes1,
                     st2\<lparr>signature := fill_signature (nargs (hdr U)) (fst info)
                                         (signature st2)\<rparr>)))"
  by pat_completeness auto
termination
  by (relation "measure (\<lambda>(H, U, depth, op_dtypes, force, allow, ensure, st).
                            if ensure then 1 else 0)")
     auto

declare promote_and_get_ufuncimpl.simps [simp del]

subsection \<open>The promoters of this file\<close>

text \<open>
  \<open>default_ufunc_promoter\<close>. The first loop looks for a DType that the signature fixes for
  all the outputs it fixes; \<open>Null\<close> is "none".
\<close>

fun signature_common :: "pyptr list \<Rightarrow> nat list \<Rightarrow> pyptr \<Rightarrow> pyptr" where
  "signature_common sig [] common = common"
| "signature_common sig (i # rest) common =
     (if sig ! i \<noteq> Null then
        (if common = Null then signature_common sig rest (sig ! i)
         else if common \<noteq> sig ! i then Null
         else signature_common sig rest common)
      else signature_common sig rest common)"

definition ptr_is_bool :: "hierarchy \<Rightarrow> pyptr \<Rightarrow> bool" where
  "ptr_is_bool H p = (case p of DT d \<Rightarrow> dt_is_bool H d | _ \<Rightarrow> False)"

text \<open>
  The common DType of the call: the one of the signature's outputs, else the promotion of
  the input operands. \<open>Inl\<close> is the return value -1: \<open>Inl None\<close> after a TypeError of the
  promotion, which the promoter clears, and \<open>Inl (Some e)\<close> with another exception, which
  stays set.
\<close>

definition common_DType ::
  "hierarchy \<Rightarrow> ufunc_hdr \<Rightarrow> pyptr list \<Rightarrow> pyptr list \<Rightarrow> pyexc option + pyptr" where
  "common_DType H U op_dtypes sig =
     (if signature_common sig [nin U..<nargs U] Null \<noteq> Null
        then Inr (signature_common sig [nin U..<nargs U] Null)
      else (case PromoteDTypeSequence H (take (nin U) op_dtypes) of
              Common c \<Rightarrow> Inr (DT c)
            | NoCommonDType \<Rightarrow> Inl None
            | PromoteFailed \<Rightarrow> Inl (Some PromotionError)))"

text \<open>
  The loop at lines 952-959 writes every slot: the signature's DType where it is fixed,
  else the common one. The loop at lines 960-963 then writes the operand DType over
  every output slot.
\<close>

fun write_outputs :: "pyptr list \<Rightarrow> nat list \<Rightarrow> slot list \<Rightarrow> slot list" where
  "write_outputs op_dtypes [] new = new"
| "write_outputs op_dtypes (i # rest) new =
     write_outputs op_dtypes rest (new[i := Written (op_dtypes ! i)])"

definition default_ufunc_promoter :: "hierarchy \<Rightarrow> promoter_function" where
  "default_ufunc_promoter H U op_dtypes sig =
     (if cmp_resolver U \<and> sig ! 0 = Null \<and> sig ! 1 = Null
         \<and> sig ! 2 \<noteq> Null \<and> \<not> ptr_is_bool H (sig ! 2) then Refuse None
      else if op_dtypes ! 0 = Null
        then Promoted [Written (op_dtypes ! 1), Written (op_dtypes ! 1), Written (op_dtypes ! 1)]
      else (case common_DType H U op_dtypes sig of
              Inl None \<Rightarrow> RefuseCleared
            | Inl (Some e) \<Rightarrow> Refuse (Some e)
            | Inr common \<Rightarrow>
                Promoted (write_outputs op_dtypes [nin U..<nargs U]
                            (map (\<lambda>i. Written (if sig ! i \<noteq> Null then sig ! i else common))
                               [0..<nargs U]))))"

text \<open>
  \<open>object_only_ufunc_promoter\<close> writes the slots that the signature leaves open and no
  other.
\<close>

definition object_only_ufunc_promoter :: "hierarchy \<Rightarrow> promoter_function" where
  "object_only_ufunc_promoter H U op_dtypes sig =
     Promoted (map (\<lambda>i. if sig ! i = Null then Written (DT (object_DType H)) else Unwritten)
                 [0..<nargs U])"

subsection \<open>Predicates on states\<close>

text \<open>Every entry of the dispatch cache holds an ArrayMethod.\<close>

definition concrete_cache :: "dstate \<Rightarrow> bool" where
  "concrete_cache st = (\<forall>info \<in> ran (cache st). is_ArrayMethod (snd info))"

text \<open>
  What a run of the driver may change besides the cache and the exception: the legacy
  resolver is called at most once, and only if it is allowed; the signature changes only
  if the legacy resolver was called; a signature slot that is \<open>NULL\<close> stays \<open>NULL\<close>.
\<close>

definition frame :: "nat \<Rightarrow> bool \<Rightarrow> dstate \<Rightarrow> dstate \<Rightarrow> bool" where
  "frame n allow st st' =
     (legacy_calls st \<le> legacy_calls st'
      \<and> legacy_calls st' \<le> legacy_calls st + (if allow then 1 else 0)
      \<and> (legacy_calls st' = legacy_calls st \<longrightarrow> signature st' = signature st)
      \<and> length (signature st) \<le> length (signature st')
      \<and> (\<forall>i<n. signature st ! i = Null \<longrightarrow> signature st' ! i = Null))"

text \<open>
  A run from \<open>st\<close> to \<open>st'\<close> with the outcome \<open>out\<close> keeps the cache concrete: if the cache
  held only ArrayMethods before, it does so after, and an entry returned is an
  ArrayMethod.
\<close>

definition keeps_concrete :: "dstate \<Rightarrow> fault + info option \<Rightarrow> dstate \<Rightarrow> bool" where
  "keeps_concrete st out st' =
     (concrete_cache st \<longrightarrow>
        concrete_cache st'
        \<and> (\<forall>info. out = Inr (Some info) \<longrightarrow> is_ArrayMethod (snd info)))"

text \<open>
  A legacy resolver answers \<open>T\<close> at slot 0: whenever it is given a type tuple of the length
  of the operands that has \<open>T\<close> at slot 0 and returns descriptors, the DType of the first
  descriptor is \<open>T\<close>.
\<close>

definition answers_slot_0 :: "ufunc \<Rightarrow> pyptr \<Rightarrow> bool" where
  "answers_slot_0 U T =
     (\<forall>resolver l out.
        type_resolver U = Some resolver \<and> resolver (Some l) = Some out
        \<and> length l = nargs (hdr U) \<and> l ! 0 = T
        \<longrightarrow> DT (out ! 0) = T)"

text \<open>A run from \<open>st\<close> to \<open>st'\<close> keeps slot 0 of the signature if it was \<open>T\<close>.\<close>

definition keeps_slot_0 :: "pyptr \<Rightarrow> dstate \<Rightarrow> dstate \<Rightarrow> bool" where
  "keeps_slot_0 T st st' = (signature st ! 0 = T \<longrightarrow> signature st' ! 0 = T)"

subsection \<open>Example ufuncs\<close>

text \<open>
  A small hierarchy: the DTypes from 9 on are abstract and every DType is a subclass of
  each of them; the promotion of any inputs is DType 2; DType 0 is the boolean one and
  DType 17 the object one.
\<close>

definition ex_hierarchy :: hierarchy where
  "ex_hierarchy = \<lparr>dt_abstract = (\<lambda>d. 9 \<le> d), dt_legacy = (\<lambda>d. True),
     dt_is_bool = (\<lambda>d. d = 0), issubclass = (\<lambda>g r. Some (9 \<le> r)),
     PromoteDTypeSequence = (\<lambda>ds. Common 2), object_DType = 17\<rparr>"

definition ex_hdr :: ufunc_hdr where
  "ex_hdr = \<lparr>nin = 2, nargs = 3, cmp_resolver = False\<rparr>"

definition ex_state :: dstate where
  "ex_state = \<lparr>cache = Map.empty, err = None, signature = [Null, Null, Null],
                legacy_calls = 0\<rparr>"

text \<open>
  One entry, a promoter, whose first slot is abstract and whose first and last slots
  differ.
\<close>

definition ex_abstract_loops :: "info list" where
  "ex_abstract_loops = [([DT 9, DT 1, DT 1], PromoterCapsule (\<lambda>U op_dtypes sig. Refuse None))]"

text \<open>
  Two promoters that tie on \<open>(1, 1, NULL)\<close>, a loop for DType 2, and a legacy resolver that
  answers \<open>(2, 2, 2)\<close>.
\<close>

definition ex_to_2 :: promoter_function where
  "ex_to_2 U op_dtypes sig = Promoted [Written (DT 2), Written (DT 2), Written (DT 2)]"

definition ex_tied_ufunc :: ufunc where
  "ex_tied_ufunc = \<lparr>hdr = ex_hdr,
     loops = [([DT 1, PyNone, PyNone], PromoterCapsule ex_to_2),
              ([PyNone, DT 1, PyNone], PromoterCapsule ex_to_2),
              ([DT 2, DT 2, DT 2], ArrayMethod 7)],
     type_resolver = Some (\<lambda>type_tuple. Some [2, 2, 2]), ntypes = 1, userloops_null = True\<rparr>"

text \<open>The default promoter as the fallback of a ufunc with one loop, for DType 2.\<close>

definition ex_default_ufunc :: ufunc where
  "ex_default_ufunc = \<lparr>hdr = ex_hdr,
     loops = [([PyNone, PyNone, PyNone], PromoterCapsule (default_ufunc_promoter ex_hierarchy)),
              ([DT 2, DT 2, DT 2], ArrayMethod 7)],
     type_resolver = None, ntypes = 0, userloops_null = True\<rparr>"

text \<open>A promoter that returns the operand DTypes as they are.\<close>

definition ex_same :: promoter_function where
  "ex_same U op_dtypes sig = Promoted (map Written (take (nargs U) op_dtypes))"

definition ex_same_ufunc :: ufunc where
  "ex_same_ufunc = \<lparr>hdr = ex_hdr,
     loops = [([PyNone, PyNone, PyNone], PromoterCapsule ex_same)],
     type_resolver = None, ntypes = 0, userloops_null = True\<rparr>"

text \<open>
  A loop \<open>(1, 1) -> 0\<close>, whose output differs from its first input, with a legacy resolver
  that answers \<open>(1, 1, 0)\<close> whatever the signature is.
\<close>

definition ex_logical_legacy_ufunc :: ufunc where
  "ex_logical_legacy_ufunc = \<lparr>hdr = ex_hdr,
     loops = [([DT 1, DT 1, DT 0], ArrayMethod 3)],
     type_resolver = Some (\<lambda>type_tuple. Some [1, 1, 0]), ntypes = 1, userloops_null = True\<rparr>"

text \<open>
  The loops \<open>(1, 1) -> 0\<close> and \<open>(0, 4) -> 0\<close> with a legacy resolver that answers \<open>(0, 4, 0)\<close>
  for a type tuple whose slot 0 is DType 0, and \<open>(1, 1, 0)\<close> for every other one.
\<close>

definition ex_honouring_resolver :: legacy_resolver where
  "ex_honouring_resolver type_tuple =
     (case type_tuple of Some (DT 0 # rest) \<Rightarrow> Some [0, 4, 0] | _ \<Rightarrow> Some [1, 1, 0])"

definition ex_honouring_ufunc :: ufunc where
  "ex_honouring_ufunc = \<lparr>hdr = ex_hdr,
     loops = [([DT 1, DT 1, DT 0], ArrayMethod 3), ([DT 0, DT 4, DT 0], ArrayMethod 4)],
     type_resolver = Some ex_honouring_resolver, ntypes = 1, userloops_null = True\<rparr>"


section \<open>Properties\<close>

subsection \<open>Case analysis and induction for the driver\<close>

lemma upt_3: "[0..<3] = [0, 1, 2]"
  by (simp add: upt_rec)

lemma call_promoter_and_recurse_cases:
  assumes "call_promoter_and_recurse H U depth promoter op st = (out, st')"
  obtains (abort) "out = Inr None" "st' = st"
    | (raised) e where "out = Inr None" "st' = set_err e st"
    | (cleared) "out = Inr None" "st' = clear_err st"
    | (unwritten) "out = Inl UninitRead" "st' = st"
    | (recurse) promoter_function new new_op_dtypes d where
        "promoter = PromoterCapsule promoter_function"
        "promoter_function (hdr U) op (signature st) = Promoted new"
        "read_new_op_dtypes (nargs (hdr U)) new = Some new_op_dtypes"
        "new_op_dtypes \<noteq> take (nargs (hdr U)) op"
        "depth = Suc d"
        "promote_and_get_info_and_ufuncimpl H U d new_op_dtypes False st = (out, st')"
  using assms
  by (subst (asm) call_promoter_and_recurse.simps)
     (auto split: target.splits promoter_ret.splits option.splits if_splits nat.splits)

lemma promote_and_get_info_and_ufuncimpl_cases:
  assumes "promote_and_get_info_and_ufuncimpl H U depth op allow st = (out, st')"
  obtains (return) r where "lookup_or_resolve H U op st = LookupReturn r st'" "out = Inr r"
    | (lookup_fault) f where
        "lookup_or_resolve H U op st = LookupFault f" "out = Inl f" "st' = st"
    | (promoted) promoter_info st1 info st2 where
        "lookup_or_resolve H U op st = LookupPromoter promoter_info st1"
        "call_promoter_and_recurse H U depth (snd promoter_info) op st1
           = (Inr (Some info), st2)"
        "out = Inr (Some info)"
        "st' = PyArrayIdentityHash_SetItem st2 (cache_key U op) (Some info)"
    | (promoter_fault) promoter_info st1 f where
        "lookup_or_resolve H U op st = LookupPromoter promoter_info st1"
        "call_promoter_and_recurse H U depth (snd promoter_info) op st1 = (Inl f, st')"
        "out = Inl f"
    | (promoter_raised) promoter_info st1 where
        "lookup_or_resolve H U op st = LookupPromoter promoter_info st1"
        "call_promoter_and_recurse H U depth (snd promoter_info) op st1 = (Inr None, st')"
        "err st' \<noteq> None" "out = Inr None"
    | (promoter_nothing) promoter_info st1 st2 where
        "lookup_or_resolve H U op st = LookupPromoter promoter_info st1"
        "call_promoter_and_recurse H U depth (snd promoter_info) op st1 = (Inr None, st2)"
        "err st2 = None"
        "legacy_fallback H U depth op allow st2 = (out, st')"
    | (no_loop) st1 where
        "lookup_or_resolve H U op st = LookupNothing st1"
        "legacy_fallback H U depth op allow st1 = (out, st')"
  using assms
  by (subst (asm) promote_and_get_info_and_ufuncimpl.simps)
     (auto split: lookup_ret.splits sum.splits option.splits if_splits prod.splits)

lemma legacy_fallback_cases:
  assumes "legacy_fallback H U depth op allow st = (out, st')"
  obtains (not_tried) "out = Inr None" "st' = st"
    | (resolver_failed) "allow" "out = Inr None"
        "legacy_promote_using_legacy_type_resolver H U (replicate (nargs (hdr U)) Null) True st
           = (Inr None, st')"
    | (resolver_fault) f where "allow" "out = Inl f"
        "legacy_promote_using_legacy_type_resolver H U (replicate (nargs (hdr U)) Null) True st
           = (Inl f, st')"
    | (recurse_fault) new_op_dtypes cacheable st1 f where
        "allow"
        "legacy_promote_using_legacy_type_resolver H U (replicate (nargs (hdr U)) Null) True st
           = (Inr (Some (new_op_dtypes, cacheable)), st1)"
        "promote_and_get_info_and_ufuncimpl H U depth new_op_dtypes False st1 = (Inl f, st')"
        "out = Inl f"
    | (recurse) new_op_dtypes cacheable st1 r st2 where
        "allow"
        "legacy_promote_using_legacy_type_resolver H U (replicate (nargs (hdr U)) Null) True st
           = (Inr (Some (new_op_dtypes, cacheable)), st1)"
        "promote_and_get_info_and_ufuncimpl H U depth new_op_dtypes False st1 = (Inr r, st2)"
        "out = Inr r"
        "st' = (if cacheable then PyArrayIdentityHash_SetItem st2 (cache_key U op) r else st2)"
  using assms
  by (subst (asm) legacy_fallback.simps)
     (auto split: sum.splits option.splits if_splits prod.splits)

text \<open>
  An induction principle over the runs of the three functions: \<open>P\<close>, \<open>Q\<close> and \<open>R\<close> relate the
  state before a run of \<open>call_promoter_and_recurse\<close>, \<open>promote_and_get_info_and_ufuncimpl\<close>
  and \<open>legacy_fallback\<close> to its outcome and the state after it.
\<close>

lemma driver_induct:
  assumes "\<And>op st. P op st (Inr None) st"
    and "\<And>op st e. P op st (Inr None) (set_err e st)"
    and "\<And>op st. P op st (Inr None) (clear_err st)"
    and "\<And>op st. P op st (Inl UninitRead) st"
    and "\<And>op new_op_dtypes st out st'. Q new_op_dtypes False st out st' \<Longrightarrow> P op st out st'"
    and "\<And>op allow st r st'.
            lookup_or_resolve H U op st = LookupReturn r st' \<Longrightarrow> Q op allow st (Inr r) st'"
    and "\<And>op allow st f.
            lookup_or_resolve H U op st = LookupFault f \<Longrightarrow> Q op allow st (Inl f) st"
    and "\<And>op allow st promoter_info st1 info st2.
            lookup_or_resolve H U op st = LookupPromoter promoter_info st1 \<Longrightarrow>
            P op st1 (Inr (Some info)) st2 \<Longrightarrow>
            Q op allow st (Inr (Some info))
              (PyArrayIdentityHash_SetItem st2 (cache_key U op) (Some info))"
    and "\<And>op allow st promoter_info st1 f st'.
            lookup_or_resolve H U op st = LookupPromoter promoter_info st1 \<Longrightarrow>
            P op st1 (Inl f) st' \<Longrightarrow> Q op allow st (Inl f) st'"
    and "\<And>op allow st promoter_info st1 st'.
            lookup_or_resolve H U op st = LookupPromoter promoter_info st1 \<Longrightarrow>
            P op st1 (Inr None) st' \<Longrightarrow> err st' \<noteq> None \<Longrightarrow> Q op allow st (Inr None) st'"
    and "\<And>op allow st promoter_info st1 st2 out st'.
            lookup_or_resolve H U op st = LookupPromoter promoter_info st1 \<Longrightarrow>
            P op st1 (Inr None) st2 \<Longrightarrow> err st2 = None \<Longrightarrow> R op allow st2 out st' \<Longrightarrow>
            Q op allow st out st'"
    and "\<And>op allow st st1 out st'.
            lookup_or_resolve H U op st = LookupNothing st1 \<Longrightarrow> R op allow st1 out st' \<Longrightarrow>
            Q op allow st out st'"
    and "\<And>op allow st. R op allow st (Inr None) st"
    and "\<And>op st st'.
            legacy_promote_using_legacy_type_resolver H U (replicate (nargs (hdr U)) Null) True st
              = (Inr None, st') \<Longrightarrow> R op True st (Inr None) st'"
    and "\<And>op st f st'.
            legacy_promote_using_legacy_type_resolver H U (replicate (nargs (hdr U)) Null) True st
              = (Inl f, st') \<Longrightarrow> R op True st (Inl f) st'"
    and "\<And>op st new_op_dtypes cacheable st1 f st2.
            legacy_promote_using_legacy_type_resolver H U (replicate (nargs (hdr U)) Null) True st
              = (Inr (Some (new_op_dtypes, cacheable)), st1) \<Longrightarrow>
            Q new_op_dtypes False st1 (Inl f) st2 \<Longrightarrow> R op True st (Inl f) st2"
    and "\<And>op st new_op_dtypes cacheable st1 r st2.
            legacy_promote_using_legacy_type_resolver H U (replicate (nargs (hdr U)) Null) True st
              = (Inr (Some (new_op_dtypes, cacheable)), st1) \<Longrightarrow>
            Q new_op_dtypes False st1 (Inr r) st2 \<Longrightarrow>
            R op True st (Inr r)
              (if cacheable then PyArrayIdentityHash_SetItem st2 (cache_key U op) r else st2)"
  shows "call_promoter_and_recurse H U depth promoter op st = (out, st') \<Longrightarrow> P op st out st'"
    and "promote_and_get_info_and_ufuncimpl H U depth op allow st = (out, st')
           \<Longrightarrow> Q op allow st out st'"
    and "legacy_fallback H U depth op allow st = (out, st') \<Longrightarrow> R op allow st out st'"
proof -
  have call: "P op st out st'"
    if "call_promoter_and_recurse H U depth promoter op st = (out, st')"
      and "\<And>d new_op_dtypes. depth = Suc d \<Longrightarrow>
             promote_and_get_info_and_ufuncimpl H U d new_op_dtypes False st = (out, st')
             \<Longrightarrow> Q new_op_dtypes False st out st'"
    for depth promoter op st out st'
    using that(1)
  proof (cases rule: call_promoter_and_recurse_cases)
    case abort
    then show ?thesis by (simp add: assms(1))
  next
    case (raised e)
    then show ?thesis by (simp add: assms(2))
  next
    case cleared
    then show ?thesis by (simp add: assms(3))
  next
    case unwritten
    then show ?thesis by (simp add: assms(4))
  next
    case (recurse promoter_function new new_op_dtypes d)
    from that(2)[OF recurse(5,6)] show ?thesis by (rule assms(5))
  qed
  have fallback: "R op allow st out st'"
    if "legacy_fallback H U depth op allow st = (out, st')"
      and "\<And>new_op_dtypes st1 out1 st2. allow \<Longrightarrow>
             promote_and_get_info_and_ufuncimpl H U depth new_op_dtypes False st1 = (out1, st2)
             \<Longrightarrow> Q new_op_dtypes False st1 out1 st2"
    for depth op allow st out st'
    using that(1)
  proof (cases rule: legacy_fallback_cases)
    case not_tried
    then show ?thesis by (simp add: assms(13))
  next
    case resolver_failed
    then show ?thesis using assms(14) by simp
  next
    case (resolver_fault f)
    then show ?thesis using assms(15) by simp
  next
    case (recurse_fault new_op_dtypes cacheable st1 f)
    have "Q new_op_dtypes False st1 (Inl f) st'"
      by (rule that(2)[OF recurse_fault(1,3)])
    from assms(16)[OF recurse_fault(2) this] show ?thesis
      using recurse_fault(1,4) by simp
  next
    case (recurse new_op_dtypes cacheable st1 r st2)
    have "Q new_op_dtypes False st1 (Inr r) st2"
      by (rule that(2)[OF recurse(1,3)])
    from assms(17)[OF recurse(2) this] show ?thesis
      using recurse(1,4,5) by simp
  qed
  have promote: "Q op allow st out st'"
    if "promote_and_get_info_and_ufuncimpl H U depth op allow st = (out, st')"
      and "\<And>promoter op1 st1 out1 st2.
             call_promoter_and_recurse H U depth promoter op1 st1 = (out1, st2)
             \<Longrightarrow> P op1 st1 out1 st2"
      and "\<And>st1 out1 st2. legacy_fallback H U depth op allow st1 = (out1, st2)
             \<Longrightarrow> R op allow st1 out1 st2"
    for depth op allow st out st'
    using that(1)
  proof (cases rule: promote_and_get_info_and_ufuncimpl_cases)
    case (return r)
    then show ?thesis by (simp add: assms(6))
  next
    case (lookup_fault f)
    then show ?thesis by (simp add: assms(7))
  next
    case (promoted promoter_info st1 info st2)
    from that(2)[OF promoted(2)] show ?thesis
      unfolding promoted(3,4) by (rule assms(8)[OF promoted(1)])
  next
    case (promoter_fault promoter_info st1 f)
    from that(2)[OF promoter_fault(2)] show ?thesis
      unfolding promoter_fault(3) by (rule assms(9)[OF promoter_fault(1)])
  next
    case (promoter_raised promoter_info st1)
    from that(2)[OF promoter_raised(2)] show ?thesis
      unfolding promoter_raised(4)
      by (rule assms(10)[OF promoter_raised(1) _ promoter_raised(3)])
  next
    case (promoter_nothing promoter_info st1 st2)
    show ?thesis
      by (rule assms(11)[OF promoter_nothing(1) that(2)[OF promoter_nothing(2)]
                 promoter_nothing(3) that(3)[OF promoter_nothing(4)]])
  next
    case (no_loop st1)
    from that(3)[OF no_loop(2)] show ?thesis by (rule assms(12)[OF no_loop(1)])
  qed
  have all: "(\<forall>promoter op st out st'.
                call_promoter_and_recurse H U depth promoter op st = (out, st')
                \<longrightarrow> P op st out st')
           \<and> (\<forall>op allow st out st'.
                promote_and_get_info_and_ufuncimpl H U depth op allow st = (out, st')
                \<longrightarrow> Q op allow st out st')" for depth
  proof (induction depth)
    case 0
    have c: "P op st out st'"
      if "call_promoter_and_recurse H U 0 promoter op st = (out, st')"
      for promoter op st out st'
      using that by (rule call) simp
    have q: "Q op False st out st'"
      if "promote_and_get_info_and_ufuncimpl H U 0 op False st = (out, st')"
      for op st out st'
      using that by (rule promote) (auto intro: c fallback)
    have "Q op allow st out st'"
      if "promote_and_get_info_and_ufuncimpl H U 0 op allow st = (out, st')"
      for op allow st out st'
      using that by (rule promote) (auto intro: c fallback q)
    with c show ?case by blast
  next
    case (Suc depth)
    have c: "P op st out st'"
      if "call_promoter_and_recurse H U (Suc depth) promoter op st = (out, st')"
      for promoter op st out st'
      using that by (rule call) (use Suc.IH in auto)
    have q: "Q op False st out st'"
      if "promote_and_get_info_and_ufuncimpl H U (Suc depth) op False st = (out, st')"
      for op st out st'
      using that by (rule promote) (auto intro: c fallback)
    have "Q op allow st out st'"
      if "promote_and_get_info_and_ufuncimpl H U (Suc depth) op allow st = (out, st')"
      for op allow st out st'
      using that by (rule promote) (auto intro: c fallback q)
    with c show ?case by blast
  qed
  show "call_promoter_and_recurse H U depth promoter op st = (out, st') \<Longrightarrow> P op st out st'"
    using all by blast
  show "promote_and_get_info_and_ufuncimpl H U depth op allow st = (out, st')
          \<Longrightarrow> Q op allow st out st'"
    using all by blast
  show "legacy_fallback H U depth op allow st = (out, st') \<Longrightarrow> R op allow st out st'"
    by (erule fallback) (use all in blast)
qed

subsection \<open>What a run of the driver leaves unchanged\<close>

lemma frame_refl: "frame n allow st st"
  by (simp add: frame_def)

lemma frame_set_err: "frame n allow st (set_err e st)"
  by (simp add: frame_def set_err_def)

lemma frame_clear_err: "frame n allow st (clear_err st)"
  by (simp add: frame_def clear_err_def)

lemma frame_weaken: "frame n False st st' \<Longrightarrow> frame n allow st st'"
  by (simp add: frame_def)

lemma frame_SetItem:
  "frame n allow st st' \<Longrightarrow> frame n allow st (PyArrayIdentityHash_SetItem st' key v)"
  by (simp add: frame_def PyArrayIdentityHash_SetItem_def)

lemma frame_trans_False: "frame n False st st1 \<Longrightarrow> frame n allow st1 st2 \<Longrightarrow> frame n allow st st2"
  by (auto simp: frame_def)

lemma lookup_or_resolve_frame:
  "lookup_or_resolve H U op st = LookupReturn r st1 \<Longrightarrow> frame n False st st1"
  "lookup_or_resolve H U op st = LookupPromoter i st1 \<Longrightarrow> frame n False st st1"
  "lookup_or_resolve H U op st = LookupNothing st1 \<Longrightarrow> frame n False st st1"
  by (auto simp: lookup_or_resolve_def PyArrayIdentityHash_SetItem_def set_err_def frame_def
           split: option.splits if_splits resolve_ret.splits)

lemma legacy_signature_Null:
  "i < n \<Longrightarrow> sig ! i = Null \<Longrightarrow> legacy_signature n sig ops ! i = Null"
  by (simp add: legacy_signature_def nth_append)

lemma length_legacy_signature: "length sig \<le> length (legacy_signature n sig ops)"
  by (simp add: legacy_signature_def)

lemma legacy_promote_frame:
  "legacy_promote_using_legacy_type_resolver H U ops c st = (x, st1)
     \<Longrightarrow> frame (nargs (hdr U)) True st st1"
  by (auto simp: legacy_promote_using_legacy_type_resolver_def set_err_def Let_def frame_def
                 legacy_signature_Null length_legacy_signature
           split: option.splits if_splits)

lemma legacy_promote_calls:
  "legacy_promote_using_legacy_type_resolver H U ops c st = (Inr (Some x), st1)
     \<Longrightarrow> legacy_calls st1 = Suc (legacy_calls st)"
  by (auto simp: legacy_promote_using_legacy_type_resolver_def set_err_def Let_def
           split: option.splits if_splits)

lemma frame_legacy_step:
  "frame n True st st1 \<Longrightarrow> legacy_calls st1 = Suc (legacy_calls st) \<Longrightarrow> frame n False st1 st2
     \<Longrightarrow> frame n True st st2"
  by (auto simp: frame_def)

lemma driver_frame:
  shows "call_promoter_and_recurse H U depth promoter op st = (out, st')
           \<Longrightarrow> frame (nargs (hdr U)) False st st'"
    and "promote_and_get_info_and_ufuncimpl H U depth op allow st = (out, st')
           \<Longrightarrow> frame (nargs (hdr U)) allow st st'"
    and "legacy_fallback H U depth op allow st = (out, st')
           \<Longrightarrow> frame (nargs (hdr U)) allow st st'"
proof -
  let ?n = "nargs (hdr U)"
  let ?P = "\<lambda>(op::pyptr list) st (out::fault + info option) st'. frame ?n False st st'"
  let ?Q = "\<lambda>(op::pyptr list) allow st (out::fault + info option) st'. frame ?n allow st st'"
  have p1: "frame ?n False st st" for st
    by (rule frame_refl)
  have p2: "frame ?n False st (set_err e st)" for st e
    by (rule frame_set_err)
  have p2c: "frame ?n False st (clear_err st)" for st
    by (rule frame_clear_err)
  have p3: "frame ?n False st st' \<Longrightarrow> frame ?n False st st'" for st st'
    by simp
  have q1: "lookup_or_resolve H U op st = LookupReturn r st' \<Longrightarrow> frame ?n allow st st'"
    for op allow st r st'
    by (rule frame_weaken) (rule lookup_or_resolve_frame)
  have q2: "frame ?n allow st st" for allow st
    by (rule frame_refl)
  have q3: "lookup_or_resolve H U op st = LookupPromoter promoter_info st1 \<Longrightarrow>
            frame ?n False st1 st2 \<Longrightarrow>
            frame ?n allow st (PyArrayIdentityHash_SetItem st2 (cache_key U op) (Some info))"
    for op allow st promoter_info st1 info st2
    by (blast intro: frame_SetItem frame_trans_False frame_weaken lookup_or_resolve_frame)
  have q4: "lookup_or_resolve H U op st = LookupPromoter promoter_info st1 \<Longrightarrow>
            frame ?n False st1 st' \<Longrightarrow> frame ?n allow st st'"
    for op allow st promoter_info st1 st'
    by (blast intro: frame_trans_False frame_weaken lookup_or_resolve_frame)
  have q5: "lookup_or_resolve H U op st = LookupPromoter promoter_info st1 \<Longrightarrow>
            frame ?n False st1 st2 \<Longrightarrow> frame ?n allow st2 st' \<Longrightarrow> frame ?n allow st st'"
    for op allow st promoter_info st1 st2 st'
    by (blast intro: frame_trans_False lookup_or_resolve_frame)
  have q6: "lookup_or_resolve H U op st = LookupNothing st1 \<Longrightarrow> frame ?n allow st1 st' \<Longrightarrow>
            frame ?n allow st st'"
    for op allow st st1 st'
    by (blast intro: frame_trans_False lookup_or_resolve_frame)
  have r1: "legacy_promote_using_legacy_type_resolver H U (replicate ?n Null) True st
              = (x, st') \<Longrightarrow> frame ?n True st st'"
    for st x st'
    by (rule legacy_promote_frame)
  have r2: "legacy_promote_using_legacy_type_resolver H U (replicate ?n Null) True st
              = (Inr (Some (new_op_dtypes, cacheable)), st1) \<Longrightarrow>
            frame ?n False st1 st2 \<Longrightarrow> frame ?n True st st2"
    for st new_op_dtypes cacheable st1 st2
    by (blast intro: frame_legacy_step[OF legacy_promote_frame legacy_promote_calls])
  have r3: "legacy_promote_using_legacy_type_resolver H U (replicate ?n Null) True st
              = (Inr (Some (new_op_dtypes, cacheable)), st1) \<Longrightarrow>
            frame ?n False st1 st2 \<Longrightarrow>
            frame ?n True st
              (if cacheable then PyArrayIdentityHash_SetItem st2 (cache_key U op) r else st2)"
    for op st new_op_dtypes cacheable st1 r st2
    by (auto intro!: frame_SetItem intro: r2)
  note ind = driver_induct[where P = ?P and Q = ?Q and R = ?Q,
                OF p1 p2 p2c p1 p3 q1 q2 q3 q4 q4 q5 q6 q2 r1 r1 r2 r3]
  show "call_promoter_and_recurse H U depth promoter op st = (out, st')
          \<Longrightarrow> frame ?n False st st'"
    by (rule ind(1))
  show "promote_and_get_info_and_ufuncimpl H U depth op allow st = (out, st')
          \<Longrightarrow> frame ?n allow st st'"
    by (rule ind(2))
  show "legacy_fallback H U depth op allow st = (out, st')
          \<Longrightarrow> frame ?n allow st st'"
    by (rule ind(3))
qed

subsection \<open>The entry point after the reduce correction\<close>

lemma initial_op_dtypes_frame:
  "initial_op_dtypes H U op force st = (x, st1) \<Longrightarrow> frame (nargs (hdr U)) True st st1"
  by (auto simp: initial_op_dtypes_def frame_refl dest: legacy_promote_frame split: if_splits)

lemma initial_op_dtypes_calls:
  "initial_op_dtypes H U op force st = (Inr (Some x), st1) \<Longrightarrow>
     legacy_calls st1 = legacy_calls st \<Longrightarrow> st1 = st"
  by (auto simp: initial_op_dtypes_def dest: legacy_promote_calls split: if_splits)

lemma fill_signature_0:
  "0 < n \<Longrightarrow> sig ! 0 \<noteq> Null \<Longrightarrow> fill_signature n all_dtypes sig ! 0 = sig ! 0"
  by (simp add: fill_signature_def nth_append upt_conv_Cons)

lemma final_run_keeps_slot_0:
  assumes "promote_and_get_ufuncimpl H U depth op force allow False st
             = (Inr (Some meth), ops1, st')"
    and "legacy_calls st' = legacy_calls st"
    and "0 < nargs (hdr U)" and "signature st ! 0 \<noteq> Null"
  shows "signature st' ! 0 = signature st ! 0"
proof -
  from assms(1) obtain op1 c st1 info st2 where
    init: "initial_op_dtypes H U op force st = (Inr (Some (op1, c)), st1)"
    and run: "promote_and_get_info_and_ufuncimpl H U depth op1 allow st1
                = (Inr (Some info), st2)"
    and st': "st' = st2\<lparr>signature := fill_signature (nargs (hdr U)) (fst info)
                                       (signature st2)\<rparr>"
    by (subst (asm) promote_and_get_ufuncimpl.simps)
       (auto split: sum.splits option.splits prod.splits if_splits)
  have f1: "frame (nargs (hdr U)) True st st1"
    by (rule initial_op_dtypes_frame[OF init])
  have f2: "frame (nargs (hdr U)) allow st1 st2"
    by (rule driver_frame(2)[OF run])
  have calls: "legacy_calls st1 = legacy_calls st" "legacy_calls st2 = legacy_calls st1"
    using f1 f2 assms(2) st' by (auto simp: frame_def)
  then have "st1 = st"
    using init by (auto dest: initial_op_dtypes_calls)
  with f2 calls have "signature st2 = signature st"
    by (simp add: frame_def)
  with st' assms(3,4) show ?thesis
    by (simp add: fill_signature_0)
qed

subsection \<open>The cache holds ArrayMethods only\<close>

lemma concrete_cache_SetItem:
  "concrete_cache st \<Longrightarrow> (\<forall>info. v = Some info \<longrightarrow> is_ArrayMethod (snd info))
     \<Longrightarrow> concrete_cache (PyArrayIdentityHash_SetItem st key v)"
  by (auto simp: concrete_cache_def PyArrayIdentityHash_SetItem_def ran_def split: if_splits)

lemma concrete_cache_set_err: "concrete_cache (set_err e st) = concrete_cache st"
  by (simp add: concrete_cache_def set_err_def)

lemma concrete_cache_clear_err: "concrete_cache (clear_err st) = concrete_cache st"
  by (simp add: concrete_cache_def clear_err_def)

lemma concrete_cache_lookup:
  "concrete_cache st \<Longrightarrow> cache st key = Some info \<Longrightarrow> is_ArrayMethod (snd info)"
  by (cases info) (auto simp: concrete_cache_def ran_def)

lemma lookup_or_resolve_concrete:
  "lookup_or_resolve H U op st = LookupReturn r st1 \<Longrightarrow> keeps_concrete st (Inr r) st1"
  "lookup_or_resolve H U op st = LookupPromoter i st1 \<Longrightarrow> keeps_concrete st (Inr None) st1"
  "lookup_or_resolve H U op st = LookupNothing st1 \<Longrightarrow> keeps_concrete st (Inr None) st1"
  by (auto simp: lookup_or_resolve_def keeps_concrete_def concrete_cache_set_err
                 PyArrayIdentityHash_GetItem_def
           intro: concrete_cache_SetItem dest: concrete_cache_lookup
           split: option.splits if_splits resolve_ret.splits)

lemma legacy_promote_concrete:
  "legacy_promote_using_legacy_type_resolver H U ops c st = (x, st1)
     \<Longrightarrow> concrete_cache st1 = concrete_cache st"
  by (auto simp: legacy_promote_using_legacy_type_resolver_def set_err_def Let_def
                 concrete_cache_def
           split: option.splits if_splits)

lemma driver_concrete:
  shows "call_promoter_and_recurse H U depth promoter op st = (out, st')
           \<Longrightarrow> keeps_concrete st out st'"
    and "promote_and_get_info_and_ufuncimpl H U depth op allow st = (out, st')
           \<Longrightarrow> keeps_concrete st out st'"
    and "legacy_fallback H U depth op allow st = (out, st')
           \<Longrightarrow> keeps_concrete st out st'"
proof -
  let ?P = "\<lambda>(op::pyptr list) st out st'. keeps_concrete st out st'"
  let ?Q = "\<lambda>(op::pyptr list) (allow::bool) st out st'. keeps_concrete st out st'"
  have p1: "keeps_concrete st (Inr None) st" for st
    by (simp add: keeps_concrete_def)
  have p2: "keeps_concrete st (Inr None) (set_err e st)" for st e
    by (simp add: keeps_concrete_def concrete_cache_set_err)
  have p2c: "keeps_concrete st (Inr None) (clear_err st)" for st
    by (simp add: keeps_concrete_def concrete_cache_clear_err)
  have p3: "keeps_concrete st (Inl f) st" for st f
    by (simp add: keeps_concrete_def)
  have p4: "keeps_concrete st out st' \<Longrightarrow> keeps_concrete st out st'" for st out st'
    by simp
  have q1: "lookup_or_resolve H U op st = LookupReturn r st' \<Longrightarrow> keeps_concrete st (Inr r) st'"
    for op st r st'
    by (rule lookup_or_resolve_concrete)
  have q3: "lookup_or_resolve H U op st = LookupPromoter promoter_info st1 \<Longrightarrow>
            keeps_concrete st1 (Inr (Some info)) st2 \<Longrightarrow>
            keeps_concrete st (Inr (Some info))
              (PyArrayIdentityHash_SetItem st2 (cache_key U op) (Some info))"
    for op st promoter_info st1 info st2
    using lookup_or_resolve_concrete(2)[of H U op st promoter_info st1]
    by (auto simp: keeps_concrete_def intro: concrete_cache_SetItem)
  have q4: "lookup_or_resolve H U op st = LookupPromoter promoter_info st1 \<Longrightarrow>
            keeps_concrete st1 (Inl f) st' \<Longrightarrow> keeps_concrete st (Inl f) st'"
    for op st promoter_info st1 f st'
    using lookup_or_resolve_concrete(2)[of H U op st promoter_info st1]
    by (auto simp: keeps_concrete_def)
  have q5: "lookup_or_resolve H U op st = LookupPromoter promoter_info st1 \<Longrightarrow>
            keeps_concrete st1 (Inr None) st' \<Longrightarrow> err st' \<noteq> None \<Longrightarrow>
            keeps_concrete st (Inr None) st'"
    for op st promoter_info st1 st'
    using lookup_or_resolve_concrete(2)[of H U op st promoter_info st1]
    by (auto simp: keeps_concrete_def)
  have q6: "lookup_or_resolve H U op st = LookupPromoter promoter_info st1 \<Longrightarrow>
            keeps_concrete st1 (Inr None) st2 \<Longrightarrow> err st2 = None \<Longrightarrow>
            keeps_concrete st2 out st' \<Longrightarrow> keeps_concrete st out st'"
    for op st promoter_info st1 st2 out st'
    using lookup_or_resolve_concrete(2)[of H U op st promoter_info st1]
    by (auto simp: keeps_concrete_def)
  have q7: "lookup_or_resolve H U op st = LookupNothing st1 \<Longrightarrow> keeps_concrete st1 out st' \<Longrightarrow>
            keeps_concrete st out st'"
    for op st st1 out st'
    using lookup_or_resolve_concrete(3)[of H U op st st1]
    by (auto simp: keeps_concrete_def)
  have r1: "legacy_promote_using_legacy_type_resolver H U (replicate (nargs (hdr U)) Null) True st
              = (Inr None, st') \<Longrightarrow> keeps_concrete st (Inr None) st'"
    for st st'
    by (simp add: keeps_concrete_def legacy_promote_concrete)
  have r2: "legacy_promote_using_legacy_type_resolver H U (replicate (nargs (hdr U)) Null) True st
              = (Inl f, st') \<Longrightarrow> keeps_concrete st (Inl f) st'"
    for st f st'
    by (simp add: keeps_concrete_def legacy_promote_concrete)
  have r3: "legacy_promote_using_legacy_type_resolver H U (replicate (nargs (hdr U)) Null) True st
              = (Inr (Some (new_op_dtypes, cacheable)), st1) \<Longrightarrow>
            keeps_concrete st1 (Inl f) st2 \<Longrightarrow> keeps_concrete st (Inl f) st2"
    for st new_op_dtypes cacheable st1 f st2
    by (auto simp: keeps_concrete_def legacy_promote_concrete)
  have r4: "legacy_promote_using_legacy_type_resolver H U (replicate (nargs (hdr U)) Null) True st
              = (Inr (Some (new_op_dtypes, cacheable)), st1) \<Longrightarrow>
            keeps_concrete st1 (Inr r) st2 \<Longrightarrow>
            keeps_concrete st (Inr r)
              (if cacheable then PyArrayIdentityHash_SetItem st2 (cache_key U op) r else st2)"
    for op st new_op_dtypes cacheable st1 r st2
    by (auto simp: keeps_concrete_def legacy_promote_concrete intro: concrete_cache_SetItem)
  note ind = driver_induct[where P = ?P and Q = ?Q and R = ?Q,
                OF p1 p2 p2c p3 p4 q1 p3 q3 q4 q5 q6 q7 p1 r1 r2 r3 r4]
  show "call_promoter_and_recurse H U depth promoter op st = (out, st')
          \<Longrightarrow> keeps_concrete st out st'"
    by (rule ind(1))
  show "promote_and_get_info_and_ufuncimpl H U depth op allow st = (out, st')
          \<Longrightarrow> keeps_concrete st out st'"
    by (rule ind(2))
  show "legacy_fallback H U depth op allow st = (out, st')
          \<Longrightarrow> keeps_concrete st out st'"
    by (rule ind(3))
qed

subsection \<open>The entry written by a resolution without the legacy resolver\<close>

lemma lookup_return_cached:
  assumes "lookup_or_resolve H U op st = LookupReturn (Some info) st'"
  shows "cache st' (cache_key U op) = Some info"
  using assms
  by (auto simp: lookup_or_resolve_def PyArrayIdentityHash_GetItem_def
                 PyArrayIdentityHash_SetItem_def set_err_def
           split: option.splits if_splits resolve_ret.splits)

lemma no_legacy_result_cached:
  assumes "promote_and_get_info_and_ufuncimpl H U depth op False st = (Inr (Some info), st')"
  shows "cache st' (cache_key U op) = Some info"
  using assms
proof (cases rule: promote_and_get_info_and_ufuncimpl_cases)
  case (return r)
  then show ?thesis by (auto intro: lookup_return_cached)
next
  case (promoted promoter_info st1 info' st2)
  then show ?thesis by (simp add: PyArrayIdentityHash_SetItem_def)
next
  case (promoter_nothing promoter_info st1 st2)
  then show ?thesis by (simp add: legacy_fallback.simps)
next
  case (no_loop st1)
  then show ?thesis by (simp add: legacy_fallback.simps)
qed simp_all

lemma length_read_slots: "read_slots xs = Some ys \<Longrightarrow> length ys = length xs"
  by (induction xs arbitrary: ys rule: read_slots.induct) auto

lemma length_read_new_op_dtypes: "read_new_op_dtypes n new = Some ys \<Longrightarrow> length ys = n"
  by (auto simp: read_new_op_dtypes_def dest!: length_read_slots split: if_splits)

subsection \<open>Counting the calls of the legacy resolver\<close>

lemma promote_and_get_ufuncimpl_cases:
  assumes "promote_and_get_ufuncimpl H U depth op force allow ensure st = (out, ops1, st')"
  obtains (initial) x where "initial_op_dtypes H U op force st = (x, st')"
    | (one_run) op1 c st1 out1 st2 where
        "initial_op_dtypes H U op force st = (Inr (Some (op1, c)), st1)"
        "promote_and_get_info_and_ufuncimpl H U depth op1 allow st1 = (out1, st2)"
        "legacy_calls st' = legacy_calls st2"
    | (rerun) op1 c st1 info st2 where
        "ensure"
        "initial_op_dtypes H U op force st = (Inr (Some (op1, c)), st1)"
        "promote_and_get_info_and_ufuncimpl H U depth op1 allow st1 = (Inr (Some info), st2)"
        "promote_and_get_ufuncimpl H U depth op1 force allow False
           (st2\<lparr>signature := (signature st2)[0 := fst info ! 2]\<rparr>) = (out, ops1, st')"
  using assms
  by (subst (asm) promote_and_get_ufuncimpl.simps)
     (auto simp: set_err_def split: sum.splits option.splits prod.splits if_splits)

lemma initial_op_dtypes_bound:
  assumes "initial_op_dtypes H U op force st = (x, st1)"
  shows "legacy_calls st1 \<le> legacy_calls st + (if force then 1 else 0)"
  using assms legacy_promote_frame[of H U _ True st x st1]
  by (auto simp: initial_op_dtypes_def frame_def split: if_splits)

lemma one_run_bound:
  assumes "initial_op_dtypes H U op force st = (x, st1)"
    and "promote_and_get_info_and_ufuncimpl H U depth op1 allow st1 = (out1, st2)"
  shows "legacy_calls st2
           \<le> legacy_calls st + ((if force then 1 else 0) + (if allow then 1 else 0))"
  using initial_op_dtypes_bound[OF assms(1)] driver_frame(2)[OF assms(2)]
  by (auto simp: frame_def split: if_splits)

lemma single_resolution_bound:
  assumes "promote_and_get_ufuncimpl H U depth op force allow False st = (out, ops1, st')"
  shows "legacy_calls st'
           \<le> legacy_calls st + ((if force then 1 else 0) + (if allow then 1 else 0))"
  using assms
proof (cases rule: promote_and_get_ufuncimpl_cases)
  case (initial x)
  then show ?thesis using initial_op_dtypes_bound[OF initial] by (auto split: if_splits)
next
  case (one_run op1 c st1 out1 st2)
  then show ?thesis using one_run_bound[OF one_run(1,2)] by simp
qed simp

subsection \<open>A legacy resolver that keeps slot 0 of the signature\<close>

lemma keeps_slot_0_refl: "keeps_slot_0 T st st"
  by (simp add: keeps_slot_0_def)

lemma keeps_slot_0_trans:
  "keeps_slot_0 T st st1 \<Longrightarrow> keeps_slot_0 T st1 st2 \<Longrightarrow> keeps_slot_0 T st st2"
  by (simp add: keeps_slot_0_def)

lemma lookup_or_resolve_keeps_slot_0:
  "lookup_or_resolve H U op st = LookupReturn r st1 \<Longrightarrow> keeps_slot_0 T st st1"
  "lookup_or_resolve H U op st = LookupPromoter i st1 \<Longrightarrow> keeps_slot_0 T st st1"
  "lookup_or_resolve H U op st = LookupNothing st1 \<Longrightarrow> keeps_slot_0 T st st1"
  by (auto simp: lookup_or_resolve_def PyArrayIdentityHash_SetItem_def set_err_def
                 keeps_slot_0_def
           split: option.splits if_splits resolve_ret.splits)

lemma make_new_typetup_slot_0:
  assumes "make_new_typetup H n sig = Some type_tuple" and "0 < n" and "sig ! 0 \<noteq> Null"
  shows "\<exists>l. type_tuple = Some l \<and> length l = n \<and> l ! 0 = sig ! 0"
proof -
  have "\<not> (\<forall>i \<in> set [0..<n]. sig ! i = Null)"
    using assms(2,3) by auto
  with assms(1) have "type_tuple
      = Some (map (\<lambda>i. if sig ! i = Null then PyNone else sig ! i) [0..<n])"
    by (auto simp: make_new_typetup_def split: if_splits)
  with assms(2,3) show ?thesis
    by (simp add: nth_map_upt)
qed

lemma legacy_signature_0:
  "0 < n \<Longrightarrow> legacy_signature n sig ops ! 0
     = (if sig ! 0 \<noteq> Null \<and> sig ! 0 \<noteq> ops ! 0 then ops ! 0 else sig ! 0)"
  by (simp add: legacy_signature_def nth_append upt_conv_Cons)

lemma legacy_promote_keeps_slot_0:
  assumes "answers_slot_0 U T" and "T \<noteq> Null" and "0 < nargs (hdr U)"
    and "legacy_promote_using_legacy_type_resolver H U ops c st = (x, st1)"
  shows "keeps_slot_0 T st st1"
  unfolding keeps_slot_0_def
proof
  assume slot: "signature st ! 0 = T"
  show "signature st1 ! 0 = T"
  proof (cases "make_new_typetup H (nargs (hdr U)) (signature st)")
    case None
    with assms(4) slot show ?thesis
      by (auto simp: legacy_promote_using_legacy_type_resolver_def set_err_def)
  next
    case (Some type_tuple)
    from make_new_typetup_slot_0[OF Some assms(3)] slot assms(2)
    obtain l where l: "type_tuple = Some l" "length l = nargs (hdr U)" "l ! 0 = T"
      by auto
    show ?thesis
    proof (cases "type_resolver U")
      case None
      with assms(4) Some slot show ?thesis
        by (auto simp: legacy_promote_using_legacy_type_resolver_def set_err_def)
    next
      case (Some resolver)
      note resolver = this
      show ?thesis
      proof (cases "resolver (Some l)")
        case None
        with assms(4) \<open>make_new_typetup H (nargs (hdr U)) (signature st) = Some type_tuple\<close>
          resolver l slot
        show ?thesis
          by (auto simp: legacy_promote_using_legacy_type_resolver_def set_err_def)
      next
        case (Some out_descrs)
        have answer: "DT (out_descrs ! 0) = T"
          using assms(1) resolver Some l by (auto simp: answers_slot_0_def)
        show ?thesis
        proof (cases "length out_descrs < nargs (hdr U)")
          case True
          with assms(4) \<open>make_new_typetup H (nargs (hdr U)) (signature st) = Some type_tuple\<close>
            resolver l Some slot
          show ?thesis
            by (auto simp: legacy_promote_using_legacy_type_resolver_def set_err_def)
        next
          case False
          with assms(3) have "(map DT (take (nargs (hdr U)) out_descrs)
                                 @ drop (nargs (hdr U)) ops) ! 0 = T"
            using answer by (simp add: nth_append)
          with False assms(3,4)
            \<open>make_new_typetup H (nargs (hdr U)) (signature st) = Some type_tuple\<close>
            resolver l Some slot
          show ?thesis
            by (auto simp: legacy_promote_using_legacy_type_resolver_def Let_def
                           legacy_signature_0)
        qed
      qed
    qed
  qed
qed

lemma driver_keeps_slot_0:
  assumes "answers_slot_0 U T" and "T \<noteq> Null" and "0 < nargs (hdr U)"
  shows "call_promoter_and_recurse H U depth promoter op st = (out, st')
           \<Longrightarrow> keeps_slot_0 T st st'"
    and "promote_and_get_info_and_ufuncimpl H U depth op allow st = (out, st')
           \<Longrightarrow> keeps_slot_0 T st st'"
    and "legacy_fallback H U depth op allow st = (out, st')
           \<Longrightarrow> keeps_slot_0 T st st'"
proof -
  let ?P = "\<lambda>(op::pyptr list) st (out::fault + info option) st'. keeps_slot_0 T st st'"
  let ?Q = "\<lambda>(op::pyptr list) (allow::bool) st (out::fault + info option) st'.
              keeps_slot_0 T st st'"
  have p1: "keeps_slot_0 T st st" for st
    by (rule keeps_slot_0_refl)
  have p2: "keeps_slot_0 T st (set_err e st)" for st e
    by (simp add: keeps_slot_0_def set_err_def)
  have p2c: "keeps_slot_0 T st (clear_err st)" for st
    by (simp add: keeps_slot_0_def clear_err_def)
  have p3: "keeps_slot_0 T st st' \<Longrightarrow> keeps_slot_0 T st st'" for st st'
    by simp
  have q1: "lookup_or_resolve H U op st = LookupReturn r st' \<Longrightarrow> keeps_slot_0 T st st'"
    for op st r st'
    by (rule lookup_or_resolve_keeps_slot_0)
  have q3: "lookup_or_resolve H U op st = LookupPromoter promoter_info st1 \<Longrightarrow>
            keeps_slot_0 T st1 st2 \<Longrightarrow>
            keeps_slot_0 T st (PyArrayIdentityHash_SetItem st2 (cache_key U op) (Some info))"
    for op st promoter_info st1 info st2
    using lookup_or_resolve_keeps_slot_0(2)[of H U op st promoter_info st1 T]
    by (simp add: keeps_slot_0_def PyArrayIdentityHash_SetItem_def)
  have q4: "lookup_or_resolve H U op st = LookupPromoter promoter_info st1 \<Longrightarrow>
            keeps_slot_0 T st1 st' \<Longrightarrow> keeps_slot_0 T st st'"
    for op st promoter_info st1 st'
    by (blast intro: keeps_slot_0_trans lookup_or_resolve_keeps_slot_0)
  have q5: "lookup_or_resolve H U op st = LookupPromoter promoter_info st1 \<Longrightarrow>
            keeps_slot_0 T st1 st2 \<Longrightarrow> keeps_slot_0 T st2 st' \<Longrightarrow> keeps_slot_0 T st st'"
    for op st promoter_info st1 st2 st'
    by (blast intro: keeps_slot_0_trans lookup_or_resolve_keeps_slot_0)
  have q6: "lookup_or_resolve H U op st = LookupNothing st1 \<Longrightarrow> keeps_slot_0 T st1 st' \<Longrightarrow>
            keeps_slot_0 T st st'"
    for op st st1 st'
    by (blast intro: keeps_slot_0_trans lookup_or_resolve_keeps_slot_0)
  have r1: "legacy_promote_using_legacy_type_resolver H U (replicate (nargs (hdr U)) Null)
              True st = (x, st') \<Longrightarrow> keeps_slot_0 T st st'"
    for st x st'
    by (rule legacy_promote_keeps_slot_0[OF assms])
  have r2: "legacy_promote_using_legacy_type_resolver H U (replicate (nargs (hdr U)) Null)
              True st = (Inr (Some (new_op_dtypes, cacheable)), st1) \<Longrightarrow>
            keeps_slot_0 T st1 st2 \<Longrightarrow> keeps_slot_0 T st st2"
    for st new_op_dtypes cacheable st1 st2
    by (blast intro: keeps_slot_0_trans r1)
  have r3: "legacy_promote_using_legacy_type_resolver H U (replicate (nargs (hdr U)) Null)
              True st = (Inr (Some (new_op_dtypes, cacheable)), st1) \<Longrightarrow>
            keeps_slot_0 T st1 st2 \<Longrightarrow>
            keeps_slot_0 T st
              (if cacheable then PyArrayIdentityHash_SetItem st2 (cache_key U op) r else st2)"
    for op st new_op_dtypes cacheable st1 r st2
    using r2[of st new_op_dtypes cacheable st1 st2]
    by (simp add: keeps_slot_0_def PyArrayIdentityHash_SetItem_def)
  note ind = driver_induct[where P = ?P and Q = ?Q and R = ?Q,
                OF p1 p2 p2c p1 p3 q1 p1 q3 q4 q4 q5 q6 p1 r1 r1 r2 r3]
  show "call_promoter_and_recurse H U depth promoter op st = (out, st')
          \<Longrightarrow> keeps_slot_0 T st st'"
    by (rule ind(1))
  show "promote_and_get_info_and_ufuncimpl H U depth op allow st = (out, st')
          \<Longrightarrow> keeps_slot_0 T st st'"
    by (rule ind(2))
  show "legacy_fallback H U depth op allow st = (out, st')
          \<Longrightarrow> keeps_slot_0 T st st'"
    by (rule ind(3))
qed

lemma initial_op_dtypes_keeps_slot_0:
  assumes "answers_slot_0 U T" and "T \<noteq> Null" and "0 < nargs (hdr U)"
    and "initial_op_dtypes H U op force st = (x, st1)"
  shows "keeps_slot_0 T st st1"
  using assms(4) legacy_promote_keeps_slot_0[OF assms(1-3)]
  by (auto simp: initial_op_dtypes_def keeps_slot_0_refl split: if_splits)

lemma final_run_keeps_answered_slot_0:
  assumes "answers_slot_0 U T" and "T \<noteq> Null" and "0 < nargs (hdr U)"
    and "promote_and_get_ufuncimpl H U depth op force allow False st
           = (Inr (Some meth), ops1, st')"
    and "signature st ! 0 = T"
  shows "signature st' ! 0 = T"
proof -
  from assms(4) obtain op1 c st1 info st2 where
    init: "initial_op_dtypes H U op force st = (Inr (Some (op1, c)), st1)"
    and run: "promote_and_get_info_and_ufuncimpl H U depth op1 allow st1
                = (Inr (Some info), st2)"
    and st': "st' = st2\<lparr>signature := fill_signature (nargs (hdr U)) (fst info)
                                       (signature st2)\<rparr>"
    by (subst (asm) promote_and_get_ufuncimpl.simps)
       (auto split: sum.splits option.splits prod.splits if_splits)
  have "keeps_slot_0 T st st1"
    by (rule initial_op_dtypes_keeps_slot_0[OF assms(1-3) init])
  moreover have "keeps_slot_0 T st1 st2"
    by (rule driver_keeps_slot_0(2)[OF assms(1-3) run])
  ultimately have "signature st2 ! 0 = T"
    using assms(5) by (simp add: keeps_slot_0_def)
  with st' assms(2,3) show ?thesis
    by (simp add: fill_signature_0)
qed

subsection \<open>Evaluating the examples\<close>

lemmas ex_defs = ex_hierarchy_def ex_hdr_def ex_state_def

lemmas matcher_defs = resolve_implementation_info.simps upt_3 NPY_DT_is_abstract_def
  PyObject_IsSubclass_def slot_best_def

lemmas driver_defs = promote_and_get_ufuncimpl.simps initial_op_dtypes_def
  promote_and_get_info_and_ufuncimpl.simps legacy_fallback.simps
  call_promoter_and_recurse.simps lookup_or_resolve_def PyArrayIdentityHash_GetItem_def
  PyArrayIdentityHash_SetItem_def cache_key_def legacy_promote_using_legacy_type_resolver_def
  make_new_typetup_def legacy_signature_def legacy_cacheable_def overlay_signature_def
  fill_signature_def set_err_def clear_err_def read_new_op_dtypes_def NPY_DT_is_legacy_def
  Let_def

lemma ex_default_lookup:
  "lookup_or_resolve ex_hierarchy ex_default_ufunc [DT 1, DT 2, Null] ex_state
     = LookupPromoter ([PyNone, PyNone, PyNone],
                       PromoterCapsule (default_ufunc_promoter ex_hierarchy)) ex_state"
  by (simp add: ex_defs matcher_defs driver_defs ex_default_ufunc_def)

lemma ex_default_call:
  "call_promoter_and_recurse ex_hierarchy ex_default_ufunc 10
       (PromoterCapsule (default_ufunc_promoter ex_hierarchy)) [DT 1, DT 2, Null] ex_state
     = (Inr (Some ([DT 2, DT 2, DT 2], ArrayMethod 7)),
         \<lparr>cache = [[DT 2, DT 2, Null] \<mapsto> ([DT 2, DT 2, DT 2], ArrayMethod 7)],
          err = None, signature = [Null, Null, Null], legacy_calls = 0\<rparr>)"
  by (simp add: ex_defs matcher_defs driver_defs ex_default_ufunc_def
                default_ufunc_promoter_def common_DType_def upt_rec)

lemma ex_tied_run:
  "promote_and_get_info_and_ufuncimpl ex_hierarchy ex_tied_ufunc 10 [DT 1, DT 1, Null] True
       ex_state
     = (Inr (Some ([DT 2, DT 2, DT 2], ArrayMethod 7)),
         \<lparr>cache = [[DT 2, DT 2, DT 2] \<mapsto> ([DT 2, DT 2, DT 2], ArrayMethod 7),
                   [DT 1, DT 1, Null] \<mapsto> ([DT 2, DT 2, DT 2], ArrayMethod 7)],
          err = Some (AmbiguousPromoters [DT 1, DT 1, Null] [DT 1, PyNone, PyNone]
                        [PyNone, DT 1, PyNone]),
          signature = [Null, Null, Null], legacy_calls = 1\<rparr>)"
  by (simp add: ex_defs matcher_defs driver_defs ex_tied_ufunc_def)

lemma ex_same_lookup:
  "lookup_or_resolve ex_hierarchy ex_same_ufunc [DT 1, DT 1, Null] ex_state
     = LookupPromoter ([PyNone, PyNone, PyNone], PromoterCapsule ex_same) ex_state"
  by (simp add: ex_defs matcher_defs driver_defs ex_same_ufunc_def)

lemma ex_honouring_initial:
  "initial_op_dtypes ex_hierarchy ex_honouring_ufunc [Null, DT 1, Null] False ex_state
     = (Inr (Some ([Null, DT 1, Null], True)), ex_state)"
  by (simp add: ex_defs driver_defs upt_3 ex_honouring_ufunc_def)

lemma ex_honouring_first_run:
  "promote_and_get_info_and_ufuncimpl ex_hierarchy ex_honouring_ufunc 10 [Null, DT 1, Null]
       True ex_state
     = (Inr (Some ([DT 1, DT 1, DT 0], ArrayMethod 3)),
         \<lparr>cache = [[DT 1, DT 1, DT 0] \<mapsto> ([DT 1, DT 1, DT 0], ArrayMethod 3),
                   [Null, DT 1, Null] \<mapsto> ([DT 1, DT 1, DT 0], ArrayMethod 3)],
          err = None, signature = [Null, Null, Null], legacy_calls = 1\<rparr>)"
  by (simp add: ex_defs matcher_defs driver_defs ex_honouring_ufunc_def
                ex_honouring_resolver_def)

lemma ex_honouring_run:
  "promote_and_get_ufuncimpl ex_hierarchy ex_honouring_ufunc 10 [Null, DT 1, Null]
       False True True ex_state
     = (Inr (Some (ArrayMethod 4)), [DT 0, DT 1, Null],
         \<lparr>cache = [[DT 1, DT 1, DT 0] \<mapsto> ([DT 1, DT 1, DT 0], ArrayMethod 3),
                   [Null, DT 1, Null] \<mapsto> ([DT 1, DT 1, DT 0], ArrayMethod 3),
                   [DT 0, DT 4, DT 0] \<mapsto> ([DT 0, DT 4, DT 0], ArrayMethod 4),
                   [DT 0, DT 1, Null] \<mapsto> ([DT 0, DT 4, DT 0], ArrayMethod 4)],
          err = None, signature = [DT 0, DT 4, DT 0], legacy_calls = 2\<rparr>)"
  by (simp add: ex_defs matcher_defs driver_defs ex_honouring_ufunc_def
                ex_honouring_resolver_def)

lemma ex_honouring_answers: "answers_slot_0 ex_honouring_ufunc (DT 0)"
  by (auto simp: answers_slot_0_def ex_honouring_ufunc_def ex_honouring_resolver_def
                 ex_hdr_def
           split: list.splits pyptr.splits nat.splits)

subsection \<open>The matcher and an unset input operand\<close>

text \<open>
  A concrete slot matches an unset input operand exactly when items 0 and 2 of the
  pattern are equal.
\<close>

lemma match_slots_unset_input_concrete:
  assumes "op_dtypes ! i = Null" and "i < n_in" and "2 < length curr_dtypes"
    and "curr_dtypes ! i = DT d" and "\<not> dt_abstract H d"
  shows "match_slots H n_in op_dtypes curr_dtypes (i # rest)
           = (if curr_dtypes ! 0 = curr_dtypes ! 2
              then match_slots H n_in op_dtypes curr_dtypes rest else Matched False)"
  using assms by (simp add: NPY_DT_is_abstract_def)

text \<open>
  C1. For a reduction-style query, where the operand DType of an input slot is \<open>NULL\<close> and
  the slot of the pattern is not \<open>None\<close>, the claim is that the slot matches exactly when
  items 0 and \<open>nin\<close> of the pattern are equal, and that every other pattern is rejected
  without an error. The code tests the reduce shape and, when it fails, goes on to the
  rules for a given DType with the \<open>NULL\<close> operand. A concrete slot then rejects the
  entry. An abstract slot does not: the \<open>NULL\<close> pointer is handed to
  \<open>PyObject_IsSubclass\<close>. The query \<open>(NULL, 1, NULL)\<close> against the one pattern \<open>(9, 1, 1)\<close>,
  whose first slot is abstract, ends in that call.
\<close>

theorem null_operand_reaches_subclass_check:
  "resolve_implementation_info ex_hierarchy ex_hdr ex_abstract_loops [Null, DT 1, Null] False
     = ResolveFault NullDeref"
  by (simp add: ex_defs matcher_defs ex_abstract_loops_def)

subsection \<open>A tie between two promoters\<close>

text \<open>
  Without the legacy fallback the exception of a tie is what the driver returns with.
\<close>

lemma tie_without_legacy_is_reported:
  assumes "cache st (cache_key U op_dtypes) = None"
    and "resolve_implementation_info H (hdr U) (loops U) op_dtypes False
           = Return_0 None (Some e)"
  shows "promote_and_get_info_and_ufuncimpl H U depth op_dtypes False st
           = (Inr None, set_err e st)"
  using assms
  by (simp add: promote_and_get_info_and_ufuncimpl.simps legacy_fallback.simps
                lookup_or_resolve_def PyArrayIdentityHash_GetItem_def)

text \<open>
  C2. The claim is that a tie which persists in the promoters-only retry raises an error
  that reaches the caller, and that no successful result is returned for the query. The
  matcher sets the exception and returns 0 with no entry, as it does when nothing
  matches; the driver therefore goes on to the legacy resolver. In the example the two
  promoters tie on \<open>(1, 1, NULL)\<close>, the legacy resolver answers \<open>(2, 2, 2)\<close>, and the entry
  point returns the loop for DType 2 and a filled signature while the exception is still
  set. The loop is also cached under \<open>(1, 1, NULL)\<close>, so that the next call of the same
  query finds it in the cache.
\<close>

theorem tie_then_legacy_returns_loop:
  "promote_and_get_ufuncimpl ex_hierarchy ex_tied_ufunc 10 [DT 1, DT 1, Null] False True False
       ex_state
     = (Inr (Some (ArrayMethod 7)), [DT 1, DT 1, Null],
         \<lparr>cache = [[DT 2, DT 2, DT 2] \<mapsto> ([DT 2, DT 2, DT 2], ArrayMethod 7),
                   [DT 1, DT 1, Null] \<mapsto> ([DT 2, DT 2, DT 2], ArrayMethod 7)],
          err = Some (AmbiguousPromoters [DT 1, DT 1, Null] [DT 1, PyNone, PyNone]
                        [PyNone, DT 1, PyNone]),
          signature = [DT 2, DT 2, DT 2], legacy_calls = 1\<rparr>)"
  by (simp add: ex_defs matcher_defs driver_defs ex_tied_ufunc_def)

subsection \<open>The slots a promoter writes\<close>

text \<open>
  C10. The claim is that every promoter writes all \<open>nargs\<close> slots of \<open>new_op_dtypes\<close> before
  the driver reads them, and that the object-only promoter in particular writes the
  slots that the signature fixes. The object-only promoter writes only the slots that
  the signature leaves open. With the signature \<open>(5, NULL, NULL)\<close> slot 0 is never written,
  and the driver reads it.
\<close>

theorem object_only_leaves_fixed_slot_unwritten:
  "call_promoter_and_recurse ex_hierarchy ex_default_ufunc 10
       (PromoterCapsule (object_only_ufunc_promoter ex_hierarchy)) [DT 5, DT 3, Null]
       (ex_state\<lparr>signature := [DT 5, Null, Null]\<rparr>)
     = (Inl UninitRead, ex_state\<lparr>signature := [DT 5, Null, Null]\<rparr>)"
  by (simp add: ex_defs driver_defs upt_3 object_only_ufunc_promoter_def ex_default_ufunc_def)

subsection \<open>The default promoter\<close>

lemma length_write_outputs: "length (write_outputs op_dtypes idx new) = length new"
  by (induction idx arbitrary: new) simp_all

lemma nth_write_outputs:
  "i < length new \<Longrightarrow>
     write_outputs op_dtypes idx new ! i
       = (if i \<in> set idx then Written (op_dtypes ! i) else new ! i)"
  by (induction idx arbitrary: new) (auto simp: nth_list_update)

text \<open>
  C3. The claim is that, when the default promoter computes a common DType, every slot
  that the signature does not fix is the common DType in its result, the output slots
  included, and every slot that the signature fixes is the signature's DType. The last
  loop of the promoter writes the operand DType over every output slot: for the
  operands \<open>(1, 2, NULL)\<close> and an empty signature the common DType is 2 and the result is
  \<open>(2, 2, NULL)\<close>.
\<close>

theorem default_promoter_output_slot_counterexample:
  "default_ufunc_promoter ex_hierarchy ex_hdr [DT 1, DT 2, Null] [Null, Null, Null]
     = Promoted [Written (DT 2), Written (DT 2), Written Null]
   \<and> common_DType ex_hierarchy ex_hdr [DT 1, DT 2, Null] [Null, Null, Null] = Inr (DT 2)"
  by (simp add: ex_defs default_ufunc_promoter_def common_DType_def upt_3 upt_rec)

text \<open>
  C3, as the code has it: when the first operand DType is set and the default promoter
  does not abstain, it writes all \<open>nargs\<close> slots; every input slot that the signature
  does not fix is the common DType, every input slot that the signature fixes is the
  signature's DType, and every output slot is the operand DType of that slot.
\<close>

theorem default_promoter_slots:
  assumes "op_dtypes ! 0 \<noteq> Null"
    and "default_ufunc_promoter H U op_dtypes sig = Promoted new"
  shows "\<exists>common. common_DType H U op_dtypes sig = Inr common
           \<and> length new = nargs U
           \<and> (\<forall>i<nargs U. new ! i =
                  Written (if nin U \<le> i then op_dtypes ! i
                           else if sig ! i \<noteq> Null then sig ! i else common))"
  using assms
  by (auto simp: default_ufunc_promoter_def length_write_outputs nth_write_outputs
           split: if_splits sum.splits option.splits)

theorem default_promoter_slots_witness:
  "[DT 1, DT 2, Null] ! 0 \<noteq> Null
   \<and> default_ufunc_promoter ex_hierarchy ex_hdr [DT 1, DT 2, Null] [DT 3, Null, Null]
       = Promoted [Written (DT 3), Written (DT 2), Written Null]
   \<and> (\<exists>common. common_DType ex_hierarchy ex_hdr [DT 1, DT 2, Null] [DT 3, Null, Null]
                   = Inr common
         \<and> length [Written (DT 3), Written (DT 2), Written Null] = nargs ex_hdr
         \<and> (\<forall>i<nargs ex_hdr. [Written (DT 3), Written (DT 2), Written Null] ! i =
                Written (if nin ex_hdr \<le> i then [DT 1, DT 2, Null] ! i
                         else if [DT 3, Null, Null] ! i \<noteq> Null then [DT 3, Null, Null] ! i
                         else common)))"
proof -
  have a: "[DT 1, DT 2, Null] ! 0 \<noteq> Null"
    by simp
  have b: "default_ufunc_promoter ex_hierarchy ex_hdr [DT 1, DT 2, Null] [DT 3, Null, Null]
             = Promoted [Written (DT 3), Written (DT 2), Written Null]"
    by (simp add: ex_defs default_ufunc_promoter_def common_DType_def upt_3 upt_rec)
  from a b default_promoter_slots[OF a b] show ?thesis
    by blast
qed

subsection \<open>What the dispatch cache holds\<close>

text \<open>
  C4. The claim is that the cache stores promoter entries as well: after a resolution a
  promoter entry can be in the cache, and a later hit on it calls the promoter without
  a scan of the loops. In the example the matcher selects the default promoter for
  \<open>(1, 2, NULL)\<close>; after the resolution the cache holds the loop for DType 2 under both
  \<open>(1, 2, NULL)\<close> and \<open>(2, 2, NULL)\<close>, and no promoter.
\<close>

theorem promoter_is_not_cached_counterexample:
  "promote_and_get_info_and_ufuncimpl ex_hierarchy ex_default_ufunc 10 [DT 1, DT 2, Null]
       False ex_state
     = (Inr (Some ([DT 2, DT 2, DT 2], ArrayMethod 7)),
         \<lparr>cache = [[DT 2, DT 2, Null] \<mapsto> ([DT 2, DT 2, DT 2], ArrayMethod 7),
                   [DT 1, DT 2, Null] \<mapsto> ([DT 2, DT 2, DT 2], ArrayMethod 7)],
          err = None, signature = [Null, Null, Null], legacy_calls = 0\<rparr>)"
  by (simp add: ex_defs matcher_defs driver_defs ex_default_ufunc_def
                default_ufunc_promoter_def common_DType_def upt_rec)

lemma cached_promoter_skips_matcher:
  assumes "cache st (cache_key U op_dtypes) = Some info" and "\<not> is_ArrayMethod (snd info)"
  shows "lookup_or_resolve H U op_dtypes st = LookupPromoter info st"
  using assms by (simp add: lookup_or_resolve_def PyArrayIdentityHash_GetItem_def)

lemma concrete_cache_hit_returns:
  assumes "concrete_cache st" and "cache st (cache_key U op_dtypes) = Some info"
  shows "promote_and_get_info_and_ufuncimpl H U depth op_dtypes allow st = (Inr (Some info), st)"
  using assms concrete_cache_lookup[OF assms]
  by (simp add: promote_and_get_info_and_ufuncimpl.simps lookup_or_resolve_def
                PyArrayIdentityHash_GetItem_def)

text \<open>
  C4, as the code has it: the cache holds entries of ArrayMethods only. If every entry
  of the cache is an ArrayMethod before a run of \<open>promote_and_get_info_and_ufuncimpl\<close>,
  then every entry is an ArrayMethod after it, however the run ends, and so is the entry
  that the run returns.
\<close>

theorem cache_holds_only_ArrayMethods:
  assumes "concrete_cache st"
    and "promote_and_get_info_and_ufuncimpl H U depth op_dtypes allow st = (out, st')"
  shows "concrete_cache st'
         \<and> (\<forall>info. out = Inr (Some info) \<longrightarrow> is_ArrayMethod (snd info))"
  using driver_concrete(2)[OF assms(2)] assms(1) by (simp add: keeps_concrete_def)

theorem cache_holds_only_ArrayMethods_witness:
  "concrete_cache ex_state
   \<and> concrete_cache
       \<lparr>cache = [[DT 2, DT 2, DT 2] \<mapsto> ([DT 2, DT 2, DT 2], ArrayMethod 7),
                 [DT 1, DT 1, Null] \<mapsto> ([DT 2, DT 2, DT 2], ArrayMethod 7)],
        err = Some (AmbiguousPromoters [DT 1, DT 1, Null] [DT 1, PyNone, PyNone]
                      [PyNone, DT 1, PyNone]),
        signature = [Null, Null, Null], legacy_calls = 1\<rparr>"
proof -
  have a: "concrete_cache ex_state"
    by (simp add: concrete_cache_def ex_state_def)
  from a cache_holds_only_ArrayMethods[OF a ex_tied_run] show ?thesis
    by blast
qed

subsection \<open>The keys of the cache writes after a promoter\<close>

text \<open>
  C6. The claim is that the entry found through a promoter is written to the cache under
  the operand DTypes as they were before the promoter changed them, and never under the
  DTypes the promoter returned. In the example the default promoter changes
  \<open>(3, 1, NULL)\<close> to \<open>(2, 2, NULL)\<close>; the recursive resolution finds the loop for DType 2
  and writes it under its own operand DTypes \<open>(2, 2, NULL)\<close>, and the calling level writes
  it under \<open>(3, 1, NULL)\<close>. After the resolution the cache holds the entry under both.
\<close>

theorem promoter_rewrite_is_cached_counterexample:
  "default_ufunc_promoter ex_hierarchy ex_hdr [DT 3, DT 1, Null] [Null, Null, Null]
     = Promoted [Written (DT 2), Written (DT 2), Written Null]
   \<and> promote_and_get_info_and_ufuncimpl ex_hierarchy ex_default_ufunc 10 [DT 3, DT 1, Null]
       False ex_state
     = (Inr (Some ([DT 2, DT 2, DT 2], ArrayMethod 7)),
         \<lparr>cache = [[DT 2, DT 2, Null] \<mapsto> ([DT 2, DT 2, DT 2], ArrayMethod 7),
                   [DT 3, DT 1, Null] \<mapsto> ([DT 2, DT 2, DT 2], ArrayMethod 7)],
          err = None, signature = [Null, Null, Null], legacy_calls = 0\<rparr>)"
  by (simp add: ex_defs matcher_defs driver_defs ex_default_ufunc_def
                default_ufunc_promoter_def common_DType_def upt_rec)

text \<open>
  C6, as the code has it: when the matcher (or the cache) gives a promoter for the operand
  DTypes and the call of the promoter with its recursive resolution returns an entry,
  then the promoter has returned DTypes that differ from the operand DTypes of this
  level, the entry is returned, and the cache holds it under the operand DTypes of this
  level, as they were before the promoter changed them, and also under the DTypes the
  promoter returned, where the recursive resolution has written it. The write of this
  level changes its own key only: under every other key the cache is as the recursive
  call left it.
\<close>

theorem promoter_result_cached_under_both:
  assumes "lookup_or_resolve H U op_dtypes st = LookupPromoter promoter_info st1"
    and "call_promoter_and_recurse H U depth (snd promoter_info) op_dtypes st1
           = (Inr (Some info), st2)"
  shows "\<exists>promoter_function new new_op_dtypes st'.
           snd promoter_info = PromoterCapsule promoter_function
           \<and> promoter_function (hdr U) op_dtypes (signature st1) = Promoted new
           \<and> read_new_op_dtypes (nargs (hdr U)) new = Some new_op_dtypes
           \<and> new_op_dtypes \<noteq> cache_key U op_dtypes
           \<and> promote_and_get_info_and_ufuncimpl H U depth op_dtypes allow st
               = (Inr (Some info), st')
           \<and> cache st' (cache_key U op_dtypes) = Some info
           \<and> cache st' new_op_dtypes = Some info
           \<and> (\<forall>key. key \<noteq> cache_key U op_dtypes \<longrightarrow> cache st' key = cache st2 key)"
  using assms(2)
proof (cases rule: call_promoter_and_recurse_cases)
  case (recurse promoter_function new new_op_dtypes d)
  have key: "cache_key U new_op_dtypes = new_op_dtypes"
    using length_read_new_op_dtypes[OF recurse(3)] by (simp add: cache_key_def)
  have inner: "cache st2 new_op_dtypes = Some info"
    using no_legacy_result_cached[OF recurse(6)] key by simp
  let ?st' = "PyArrayIdentityHash_SetItem st2 (cache_key U op_dtypes) (Some info)"
  have run: "promote_and_get_info_and_ufuncimpl H U depth op_dtypes allow st
               = (Inr (Some info), ?st')"
    using assms by (simp add: promote_and_get_info_and_ufuncimpl.simps)
  have differ: "new_op_dtypes \<noteq> cache_key U op_dtypes"
    using recurse(4) by (simp add: cache_key_def)
  have "cache ?st' (cache_key U op_dtypes) = Some info"
    and "cache ?st' new_op_dtypes = Some info"
    and "\<forall>key. key \<noteq> cache_key U op_dtypes \<longrightarrow> cache ?st' key = cache st2 key"
    using inner differ by (simp_all add: PyArrayIdentityHash_SetItem_def)
  with recurse(1-3) differ run show ?thesis
    by blast
qed simp_all

(* ---------- C7 ---------- *)

theorem promoter_result_cached_under_both_witness:
  "\<exists>st'. promote_and_get_info_and_ufuncimpl ex_hierarchy ex_default_ufunc 10
            [DT 1, DT 2, Null] True ex_state
            = (Inr (Some ([DT 2, DT 2, DT 2], ArrayMethod 7)), st')
      \<and> cache st' [DT 1, DT 2, Null] = Some ([DT 2, DT 2, DT 2], ArrayMethod 7)
      \<and> cache st' [DT 2, DT 2, Null] = Some ([DT 2, DT 2, DT 2], ArrayMethod 7)"
proof -
  have key: "cache_key ex_default_ufunc [DT 1, DT 2, Null] = [DT 1, DT 2, Null]"
    by (simp add: cache_key_def ex_default_ufunc_def ex_hdr_def)
  have call: "call_promoter_and_recurse ex_hierarchy ex_default_ufunc 10
                (snd ([PyNone, PyNone, PyNone],
                      PromoterCapsule (default_ufunc_promoter ex_hierarchy)))
                [DT 1, DT 2, Null] ex_state
              = (Inr (Some ([DT 2, DT 2, DT 2], ArrayMethod 7)),
                  \<lparr>cache = [[DT 2, DT 2, Null] \<mapsto> ([DT 2, DT 2, DT 2], ArrayMethod 7)],
                   err = None, signature = [Null, Null, Null], legacy_calls = 0\<rparr>)"
    using ex_default_call by simp
  have promoted: "default_ufunc_promoter ex_hierarchy (hdr ex_default_ufunc) [DT 1, DT 2, Null]
                    (signature ex_state)
                  = Promoted [Written (DT 2), Written (DT 2), Written Null]"
    by (simp add: ex_defs ex_default_ufunc_def default_ufunc_promoter_def common_DType_def
                  upt_rec Let_def)
  from promoter_result_cached_under_both[OF ex_default_lookup call, of True]
  obtain promoter_function new new_op_dtypes st' where
    r: "snd ([PyNone, PyNone, PyNone], PromoterCapsule (default_ufunc_promoter ex_hierarchy))
          = PromoterCapsule promoter_function"
      "promoter_function (hdr ex_default_ufunc) [DT 1, DT 2, Null] (signature ex_state)
         = Promoted new"
      "read_new_op_dtypes (nargs (hdr ex_default_ufunc)) new = Some new_op_dtypes"
      "promote_and_get_info_and_ufuncimpl ex_hierarchy ex_default_ufunc 10 [DT 1, DT 2, Null]
         True ex_state = (Inr (Some ([DT 2, DT 2, DT 2], ArrayMethod 7)), st')"
      "cache st' (cache_key ex_default_ufunc [DT 1, DT 2, Null])
         = Some ([DT 2, DT 2, DT 2], ArrayMethod 7)"
      "cache st' new_op_dtypes = Some ([DT 2, DT 2, DT 2], ArrayMethod 7)"
    by blast
  from r(1,2) promoted have "new = [Written (DT 2), Written (DT 2), Written Null]"
    by simp
  with r(3) have "new_op_dtypes = [DT 2, DT 2, Null]"
    by (simp add: read_new_op_dtypes_def ex_default_ufunc_def ex_hdr_def)
  with r(4,5,6) key show ?thesis
    by auto
qed

subsection \<open>How often the legacy resolver is called\<close>

text \<open>
  C7. The claim is that one top-level resolution calls the legacy type resolver at most
  once. In the example the entry point is called for a reduction, with legacy promotion
  allowed. The first resolution finds no loop for \<open>(NULL, 1, NULL)\<close> and calls the legacy
  resolver, which answers \<open>(1, 1, 0)\<close>; the reduce correction sets slot 0 of the signature
  to DType 0 and runs the resolution again with the same flag; that one finds no loop
  for \<open>(0, 1, NULL)\<close> and calls the legacy resolver a second time.
\<close>

theorem reduce_rerun_calls_legacy_twice_counterexample:
  "fst (promote_and_get_ufuncimpl ex_hierarchy ex_honouring_ufunc 10 [Null, DT 1, Null]
          False True True ex_state) = Inr (Some (ArrayMethod 4))
   \<and> legacy_calls (snd (snd (promote_and_get_ufuncimpl ex_hierarchy ex_honouring_ufunc 10
                                 [Null, DT 1, Null] False True True ex_state)))
       = legacy_calls ex_state + 2"
  by (simp add: ex_defs matcher_defs driver_defs ex_honouring_ufunc_def
                ex_honouring_resolver_def)

text \<open>
  C7, as the code has it: one call of \<open>promote_and_get_info_and_ufuncimpl\<close>, with all the
  recursive calls it makes and however it ends, calls the legacy type resolver at most
  once, and not at all when legacy promotion is not allowed: the recursive call after a
  promoter and the one after the legacy resolver both pass
  \<open>allow_legacy_promotion = false\<close>. One call of the entry point
  \<open>promote_and_get_ufuncimpl\<close> calls it at most once for \<open>force_legacy_promotion\<close> and once
  for \<open>allow_legacy_promotion\<close> in each resolution it runs, and it runs two resolutions at
  most if \<open>ensure_reduce_compatible\<close> is set, one otherwise.
\<close>

theorem legacy_resolver_calls_bounded:
  "(promote_and_get_info_and_ufuncimpl H U depth op_dtypes allow st = (out, st')
      \<longrightarrow> legacy_calls st' \<le> legacy_calls st + 1
          \<and> (\<not> allow \<longrightarrow> legacy_calls st' = legacy_calls st))
   \<and> (promote_and_get_ufuncimpl H U depth op_dtypes force allow ensure s
         = (res, dtypes, s')
      \<longrightarrow> legacy_calls s'
            \<le> legacy_calls s
               + (if ensure then 2 else 1)
                 * ((if force then 1 else 0) + (if allow then 1 else 0)))"
proof (intro conjI impI)
  assume run: "promote_and_get_info_and_ufuncimpl H U depth op_dtypes allow st = (out, st')"
  from driver_frame(2)[OF run] show "legacy_calls st' \<le> legacy_calls st + 1"
    by (auto simp: frame_def split: if_splits)
  assume "\<not> allow"
  with driver_frame(2)[OF run] show "legacy_calls st' = legacy_calls st"
    by (auto simp: frame_def)
next
  let ?k = "(if force then 1 else 0) + (if allow then 1 else 0) :: nat"
  assume "promote_and_get_ufuncimpl H U depth op_dtypes force allow ensure s
            = (res, dtypes, s')"
  then show "legacy_calls s' \<le> legacy_calls s + (if ensure then 2 else 1) * ?k"
  proof (cases rule: promote_and_get_ufuncimpl_cases)
    case (initial x)
    then show ?thesis using initial_op_dtypes_bound[OF initial] by (auto split: if_splits)
  next
    case (one_run op1 c st1 out1 st2)
    then show ?thesis using one_run_bound[OF one_run(1,2)] by (auto split: if_splits)
  next
    case (rerun op1 c st1 info st2)
    have "legacy_calls st2 \<le> legacy_calls s + ?k"
      by (rule one_run_bound[OF rerun(2,3)])
    moreover have "legacy_calls s' \<le> legacy_calls st2 + ?k"
      using single_resolution_bound[OF rerun(4)] by simp
    ultimately show ?thesis using rerun(1) by simp
  qed
qed

theorem legacy_resolver_calls_bounded_witness:
  "legacy_calls (snd (promote_and_get_info_and_ufuncimpl ex_hierarchy ex_tied_ufunc 10
                        [DT 1, DT 1, Null] True ex_state))
     \<le> legacy_calls ex_state + 1
   \<and> legacy_calls (snd (snd (promote_and_get_ufuncimpl ex_hierarchy ex_honouring_ufunc 10
                                 [Null, DT 1, Null] False True True ex_state)))
       \<le> legacy_calls ex_state + 2"
  using legacy_resolver_calls_bounded[where H = ex_hierarchy and U = ex_tied_ufunc
          and depth = 10 and op_dtypes = "[DT 1, DT 1, Null]" and allow = True
          and st = ex_state and force = False and ensure = False and s = ex_state
          and out = "Inr (Some ([DT 2, DT 2, DT 2], ArrayMethod 7))"
          and st' = "snd (promote_and_get_info_and_ufuncimpl ex_hierarchy ex_tied_ufunc 10
                            [DT 1, DT 1, Null] True ex_state)"]
    legacy_resolver_calls_bounded[where H = ex_hierarchy and U = ex_honouring_ufunc
          and depth = 10 and op_dtypes = "[Null, DT 1, Null]" and allow = True
          and st = ex_state and force = False and ensure = True and s = ex_state
          and res = "Inr (Some (ArrayMethod 4))" and dtypes = "[DT 0, DT 1, Null]"
          and s' = "snd (snd (promote_and_get_ufuncimpl ex_hierarchy ex_honouring_ufunc 10
                                  [Null, DT 1, Null] False True True ex_state))"]
    ex_tied_run ex_honouring_run
  by simp

subsection \<open>A promoter that changes nothing\<close>

text \<open>
  C8. If a promoter returns DTypes that are, slot by slot, the ones it was given, then
  \<open>call_promoter_and_recurse\<close> returns \<open>NULL\<close> and leaves the state as it is, whatever the
  recursion depth: it makes no recursive call. The driver then goes on as if no loop had
  been found: with no exception pending, its result is that of the legacy fallback.
\<close>

theorem unchanged_promotion_aborts:
  assumes "promoter_function (hdr U) op_dtypes (signature st) = Promoted new"
    and "read_new_op_dtypes (nargs (hdr U)) new = Some (take (nargs (hdr U)) op_dtypes)"
  shows "call_promoter_and_recurse H U depth (PromoterCapsule promoter_function) op_dtypes st
           = (Inr None, st)
         \<and> (\<forall>st0 pattern allow.
               lookup_or_resolve H U op_dtypes st0
                 = LookupPromoter (pattern, PromoterCapsule promoter_function) st
               \<and> err st = None \<longrightarrow>
               promote_and_get_info_and_ufuncimpl H U depth op_dtypes allow st0
                 = legacy_fallback H U depth op_dtypes allow st)"
proof -
  have call: "call_promoter_and_recurse H U depth (PromoterCapsule promoter_function)
                op_dtypes st = (Inr None, st)"
    using assms by (simp add: call_promoter_and_recurse.simps)
  then show ?thesis
    by (auto simp: promote_and_get_info_and_ufuncimpl.simps)
qed

theorem unchanged_promotion_aborts_witness:
  "ex_same (hdr ex_same_ufunc) [DT 1, DT 1, Null] (signature ex_state)
     = Promoted [Written (DT 1), Written (DT 1), Written Null]
   \<and> call_promoter_and_recurse ex_hierarchy ex_same_ufunc 10 (PromoterCapsule ex_same)
       [DT 1, DT 1, Null] ex_state = (Inr None, ex_state)
   \<and> promote_and_get_info_and_ufuncimpl ex_hierarchy ex_same_ufunc 10 [DT 1, DT 1, Null]
       False ex_state = (Inr None, ex_state)"
proof -
  have a: "ex_same (hdr ex_same_ufunc) [DT 1, DT 1, Null] (signature ex_state)
             = Promoted [Written (DT 1), Written (DT 1), Written Null]"
    by (simp add: ex_same_def ex_same_ufunc_def ex_hdr_def)
  have b: "read_new_op_dtypes (nargs (hdr ex_same_ufunc))
             [Written (DT 1), Written (DT 1), Written Null]
             = Some (take (nargs (hdr ex_same_ufunc)) [DT 1, DT 1, Null])"
    by (simp add: read_new_op_dtypes_def ex_same_ufunc_def ex_hdr_def)
  have c: "err ex_state = None"
    by (simp add: ex_state_def)
  have d: "legacy_fallback ex_hierarchy ex_same_ufunc 10 [DT 1, DT 1, Null] False ex_state
             = (Inr None, ex_state)"
    by (simp add: legacy_fallback.simps)
  from unchanged_promotion_aborts[where promoter_function = ex_same and U = ex_same_ufunc
         and op_dtypes = "[DT 1, DT 1, Null]" and st = ex_state and H = ex_hierarchy
         and depth = 10, OF a b]
    ex_same_lookup a c d
  show ?thesis
    by simp
qed

subsection \<open>Two abstract DTypes in one slot\<close>




subsection \<open>The reduce correction of the entry point\<close>

text \<open>
  C5. The claim is that, with \<open>ensure_reduce_compatible\<close> set, slot 0 of the signature
  unset and a loop found whose output DType differs from its first input DType, the
  entry point sets slot 0 of the signature to the output DType of that loop and runs
  once more without \<open>ensure_reduce_compatible\<close>, so that slot 0 of the final signature is
  that output DType. In the example the loop \<open>(1, 1) -> 0\<close> is found through the legacy
  resolver; the second run sets slot 0 to DType 0, finds no loop for \<open>(0, 1, NULL)\<close> and
  calls the legacy resolver again, which answers \<open>(1, 1, 0)\<close> and overwrites slot 0 of the
  signature. The final signature is \<open>(1, 1, 0)\<close>.
\<close>

theorem legacy_overwrites_forced_slot_counterexample:
  "promote_and_get_ufuncimpl ex_hierarchy ex_logical_legacy_ufunc 10 [Null, DT 1, Null]
       False True True ex_state
     = (Inr (Some (ArrayMethod 3)), [DT 0, DT 1, Null],
         \<lparr>cache = [[DT 1, DT 1, DT 0] \<mapsto> ([DT 1, DT 1, DT 0], ArrayMethod 3),
                   [Null, DT 1, Null] \<mapsto> ([DT 1, DT 1, DT 0], ArrayMethod 3)],
          err = None, signature = [DT 1, DT 1, DT 0], legacy_calls = 2\<rparr>)"
  by (simp add: ex_defs matcher_defs driver_defs ex_logical_legacy_ufunc_def)

text \<open>
  C5, as the code has it: under the same conditions the call is the call without
  \<open>ensure_reduce_compatible\<close> on the signature whose slot 0 is the output DType of the loop
  found; and if it returns a method, slot 0 of the final signature is that output DType
  provided that the second run has not called the legacy resolver, or that the legacy
  resolver of the ufunc answers that DType at slot 0 for every type tuple that has it at
  slot 0. (The legacy resolver replaces every fixed slot of the signature that differs
  from its answer.)
\<close>

theorem reduce_rerun_forces_output:
  assumes init: "initial_op_dtypes H U op_dtypes force st
                   = (Inr (Some (op_dtypes1, cacheable)), st1)"
    and run: "promote_and_get_info_and_ufuncimpl H U depth op_dtypes1 allow st1
                = (Inr (Some info), st2)"
    and unset: "signature st ! 0 = Null"
    and n: "0 < nargs (hdr U)" "signature st \<noteq> []"
    and shape: "2 < length (fst info)" "fst info ! 0 \<noteq> fst info ! 2" "fst info ! 2 \<noteq> Null"
  shows "promote_and_get_ufuncimpl H U depth op_dtypes force allow True st
           = promote_and_get_ufuncimpl H U depth op_dtypes1 force allow False
               (st2\<lparr>signature := (signature st2)[0 := fst info ! 2]\<rparr>)
         \<and> (\<forall>meth ops1 st'.
               promote_and_get_ufuncimpl H U depth op_dtypes force allow True st
                 = (Inr (Some meth), ops1, st')
               \<and> (legacy_calls st' = legacy_calls st2 \<or> answers_slot_0 U (fst info ! 2))
               \<longrightarrow> signature st' ! 0 = fst info ! 2)"
proof -
  have f1: "frame (nargs (hdr U)) True st st1"
    by (rule initial_op_dtypes_frame[OF init])
  have f2: "frame (nargs (hdr U)) allow st1 st2"
    by (rule driver_frame(2)[OF run])
  from f1 f2 unset n have null: "signature st2 ! 0 = Null" and len: "signature st2 \<noteq> []"
    by (auto simp: frame_def)
  let ?st = "st2\<lparr>signature := (signature st2)[0 := fst info ! 2]\<rparr>"
  have rerun: "promote_and_get_ufuncimpl H U depth op_dtypes force allow True st
                 = promote_and_get_ufuncimpl H U depth op_dtypes1 force allow False ?st"
    using init run null shape
    by (subst promote_and_get_ufuncimpl.simps) simp
  have slot: "signature ?st ! 0 = fst info ! 2"
    using len by (cases "signature st2") simp_all
  have "signature st' ! 0 = fst info ! 2"
    if res: "promote_and_get_ufuncimpl H U depth op_dtypes force allow True st
               = (Inr (Some meth), ops1, st')"
      and how: "legacy_calls st' = legacy_calls st2 \<or> answers_slot_0 U (fst info ! 2)"
    for meth ops1 st'
    using how
  proof
    assume "legacy_calls st' = legacy_calls st2"
    with final_run_keeps_slot_0[of H U depth op_dtypes1 force allow ?st meth ops1 st']
      res rerun n(1) slot shape(3)
    show ?thesis by simp
  next
    assume "answers_slot_0 U (fst info ! 2)"
    from final_run_keeps_answered_slot_0[OF this shape(3) n(1) _ slot] res rerun
    show ?thesis by simp
  qed
  with rerun show ?thesis
    by blast
qed

theorem reduce_rerun_forces_output_witness:
  "\<exists>meth ops1 st'.
     promote_and_get_ufuncimpl ex_hierarchy ex_honouring_ufunc 10 [Null, DT 1, Null]
         False True True ex_state = (Inr (Some meth), ops1, st')
     \<and> legacy_calls st' = 2
     \<and> signature st' ! 0 = fst ([DT 1, DT 1, DT 0], ArrayMethod 3) ! 2"
proof -
  have unset: "signature ex_state ! 0 = Null"
    and n: "0 < nargs (hdr ex_honouring_ufunc)" "signature ex_state \<noteq> []"
    by (simp_all add: ex_state_def ex_honouring_ufunc_def ex_hdr_def)
  have shape: "2 < length (fst ([DT 1, DT 1, DT 0], ArrayMethod 3))"
    "fst ([DT 1, DT 1, DT 0], ArrayMethod 3) ! 0 \<noteq> fst ([DT 1, DT 1, DT 0], ArrayMethod 3) ! 2"
    "fst ([DT 1, DT 1, DT 0], ArrayMethod 3) ! 2 \<noteq> Null"
    by simp_all
  have answers: "answers_slot_0 ex_honouring_ufunc (fst ([DT 1, DT 1, DT 0], ArrayMethod 3) ! 2)"
    using ex_honouring_answers by simp
  from reduce_rerun_forces_output[OF ex_honouring_initial ex_honouring_first_run unset n shape]
    ex_honouring_run answers
  show ?thesis
    by simp
qed

end
